theory Spec2Isabelle
  imports Complex_Main
begin

section \<open>The game store (types.ts, store.ts)\<close>

text \<open>
  The three enums of types.ts become datatypes and the data fields of the interface
  GameState become a record. A TypeScript number is modelled as a real: the arithmetic
  of the store (one addition, one subtraction, comparisons, Math.max) is taken to be
  exact, and NaN and the infinities are left out.

  The store is a zustand store: every action is \<open>set(f)\<close>, where \<open>f\<close> returns the fields
  to overwrite and \<open>{}\<close> leaves the state as it is. An action is therefore a function
  from the state to the state, written with record updates. The two actions that read
  the clock (\<open>Date.now()\<close>) take the time read as the argument \<open>now\<close>.
\<close>

datatype GameStatus = MENU | PLAYING | GAME_OVER | GAME_WON

datatype DangerStatus = SAFE | WARNING

datatype GamePhase = CORRIDOR | HIGH_ALTITUDE

record GameState =
  status :: GameStatus
  dangerStatus :: DangerStatus
  phase :: GamePhase
  score :: real
  birdCount :: real
  birdX :: real
  birdY :: real
  cameraPermissionGranted :: bool
  handDetected :: bool
  isFist :: bool
  lastHitTime :: real
  dangerTimer :: real

text \<open>The state the store is created with.\<close>

definition initialState :: GameState where
  "initialState =
     \<lparr> status = MENU, dangerStatus = SAFE, phase = CORRIDOR, score = 0, birdCount = 16,
       birdX = 0, birdY = 0,
       cameraPermissionGranted = False, handDetected = False, isFist = False,
       lastHitTime = 0, dangerTimer = 0 \<rparr>"

definition setStatus :: "GameStatus \<Rightarrow> GameState \<Rightarrow> GameState" where
  "setStatus st s = s\<lparr>status := st\<rparr>"

definition setBirdX :: "real \<Rightarrow> GameState \<Rightarrow> GameState" where
  "setBirdX x s = s\<lparr>birdX := x\<rparr>"

definition setBirdY :: "real \<Rightarrow> GameState \<Rightarrow> GameState" where
  "setBirdY y s = s\<lparr>birdY := y\<rparr>"

definition setIsFist :: "bool \<Rightarrow> GameState \<Rightarrow> GameState" where
  "setIsFist b s = s\<lparr>isFist := b\<rparr>"

definition incrementScore :: "real \<Rightarrow> GameState \<Rightarrow> GameState" where
  "incrementScore amount s =
     (let newScore = score s + amount;
          newPhase = (if newScore > 300 \<and> phase s = CORRIDOR then HIGH_ALTITUDE else phase s);
          newStatus = (if newScore \<ge> 800 \<and> status s \<noteq> GAME_WON then GAME_WON else status s)
      in s\<lparr>score := newScore, phase := newPhase, status := newStatus\<rparr>)"

definition triggerDanger :: "real \<Rightarrow> GameState \<Rightarrow> GameState" where
  "triggerDanger now s =
     (if dangerStatus s = WARNING \<or> now - lastHitTime s < 2000 then s
      else s\<lparr>dangerStatus := WARNING, dangerTimer := 3000, lastHitTime := now\<rparr>)"

definition resolveDanger :: "bool \<Rightarrow> real \<Rightarrow> GameState \<Rightarrow> GameState" where
  "resolveDanger success now s =
     (if dangerStatus s \<noteq> WARNING then s
      else
        let newCount = (if \<not> success then max 0 (birdCount s - 1) else birdCount s);
            newStatus = (if newCount \<le> 0 then GAME_OVER else status s);
            newDanger = SAFE
        in s\<lparr>birdCount := newCount, status := newStatus, dangerStatus := newDanger,
              lastHitTime := now\<rparr>)"

definition tickDangerTimer :: "real \<Rightarrow> real \<Rightarrow> GameState \<Rightarrow> GameState" where
  "tickDangerTimer deltaMs now s =
     (if dangerStatus s \<noteq> WARNING then s
      else
        let newTime = dangerTimer s - deltaMs
        in if newTime \<le> 0 then
             (let newCount = max 0 (birdCount s - 1)
              in s\<lparr>dangerTimer := 0, dangerStatus := SAFE, birdCount := newCount,
                    status := (if newCount \<le> 0 then GAME_OVER else status s),
                    lastHitTime := now\<rparr>)
           else s\<lparr>dangerTimer := newTime\<rparr>)"

definition resetGame :: "GameState \<Rightarrow> GameState" where
  "resetGame s =
     s\<lparr>status := PLAYING, dangerStatus := SAFE, phase := CORRIDOR, score := 0,
       birdCount := 16, birdX := 0, birdY := 0, lastHitTime := 0, dangerTimer := 0\<rparr>"

definition setCameraPermission :: "bool \<Rightarrow> GameState \<Rightarrow> GameState" where
  "setCameraPermission granted s = s\<lparr>cameraPermissionGranted := granted\<rparr>"

definition setHandDetected :: "bool \<Rightarrow> GameState \<Rightarrow> GameState" where
  "setHandDetected detected s = s\<lparr>handDetected := detected\<rparr>"

text \<open>
  The actions of the store as one datatype, and the store's reaction to an action at
  clock reading \<open>now\<close>.
\<close>

datatype Action =
    SetStatus GameStatus
  | SetBirdX real
  | SetBirdY real
  | SetIsFist bool
  | IncrementScore real
  | TriggerDanger
  | ResolveDanger bool
  | TickDangerTimer real
  | ResetGame
  | SetCameraPermission bool
  | SetHandDetected bool

fun dispatch :: "real \<Rightarrow> Action \<Rightarrow> GameState \<Rightarrow> GameState" where
  "dispatch now (SetStatus st) s = setStatus st s"
| "dispatch now (SetBirdX x) s = setBirdX x s"
| "dispatch now (SetBirdY y) s = setBirdY y s"
| "dispatch now (SetIsFist b) s = setIsFist b s"
| "dispatch now (IncrementScore amount) s = incrementScore amount s"
| "dispatch now TriggerDanger s = triggerDanger now s"
| "dispatch now (ResolveDanger success) s = resolveDanger success now s"
| "dispatch now (TickDangerTimer deltaMs) s = tickDangerTimer deltaMs now s"
| "dispatch now ResetGame s = resetGame s"
| "dispatch now (SetCameraPermission granted) s = setCameraPermission granted s"
| "dispatch now (SetHandDetected detected) s = setHandDetected detected s"

section \<open>Obstacles and the collision test (GameScene.tsx, ObstacleManager)\<close>

text \<open>
  The interface Laser. Its fields are called id, z, x, y, width, side, angle and type in
  the source; here each carries the prefix \<open>laser_\<close>, since a record field is a
  constant of the theory and one-letter constants would capture the variables of every
  later statement.
\<close>

datatype LaserType = Beam | Pillar

record Laser =
  laser_id :: real
  laser_z :: real
  laser_x :: real
  laser_y :: real
  laser_width :: real
  laser_side :: real
  laser_angle :: real
  laser_type :: LaserType

definition LASER_SPAWN_INTERVAL_MIN_P1 :: real where "LASER_SPAWN_INTERVAL_MIN_P1 = 300"
definition LASER_SPAWN_INTERVAL_MAX_P1 :: real where "LASER_SPAWN_INTERVAL_MAX_P1 = 600"
definition LASER_SPAWN_INTERVAL_MIN_P2 :: real where "LASER_SPAWN_INTERVAL_MIN_P2 = 400"
definition LASER_SPAWN_INTERVAL_MAX_P2 :: real where "LASER_SPAWN_INTERVAL_MAX_P2 = 700"
definition LASER_SPEED :: real where "LASER_SPEED = 60"
definition SCENE_WIDTH :: real where "SCENE_WIDTH = 20"
definition SCENE_HEIGHT :: real where "SCENE_HEIGHT = 12"

text \<open>
  The body of the branch \<open>if (dz < 3.0)\<close>, one definition for each constant of the
  source. \<open>cbx\<close> and \<open>cby\<close> stand for currentBirdX and currentBirdY, and \<open>cos\<close>
  and \<open>sin\<close> are the real functions (Math.cos and Math.sin without rounding).
\<close>

definition dirBaseX :: "Laser \<Rightarrow> real" where
  "dirBaseX l = (if laser_side l = 1 then - 1 else 1)"

definition dirBaseY :: real where
  "dirBaseY = 0"

definition cosA :: "Laser \<Rightarrow> real" where
  "cosA l = cos (laser_angle l)"

definition sinA :: "Laser \<Rightarrow> real" where
  "sinA l = sin (laser_angle l)"

definition dirX :: "Laser \<Rightarrow> real" where
  "dirX l = dirBaseX l * cosA l - dirBaseY * sinA l"

definition dirY :: "Laser \<Rightarrow> real" where
  "dirY l = dirBaseX l * sinA l + dirBaseY * cosA l"

definition projT :: "real \<Rightarrow> real \<Rightarrow> Laser \<Rightarrow> real" where
  "projT cbx cby l = (cbx - laser_x l) * dirX l + (cby - laser_y l) * dirY l"

definition closestX :: "real \<Rightarrow> real \<Rightarrow> Laser \<Rightarrow> real" where
  "closestX cbx cby l =
     (let t = projT cbx cby l
      in if t < 0 then laser_x l
         else if t > laser_width l then laser_x l + laser_width l * dirX l
         else laser_x l + t * dirX l)"

definition closestY :: "real \<Rightarrow> real \<Rightarrow> Laser \<Rightarrow> real" where
  "closestY cbx cby l =
     (let t = projT cbx cby l
      in if t < 0 then laser_y l
         else if t > laser_width l then laser_y l + laser_width l * dirY l
         else laser_y l + t * dirY l)"

definition distSq :: "real \<Rightarrow> real \<Rightarrow> Laser \<Rightarrow> real" where
  "distSq cbx cby l = (cbx - closestX cbx cby l)\<^sup>2 + (cby - closestY cbx cby l)\<^sup>2"

definition visualRadius :: "Laser \<Rightarrow> real" where
  "visualRadius l = (if laser_type l = Pillar then 5.0 else 0.8)"

definition flockRadius :: "bool \<Rightarrow> real" where
  "flockRadius fist = (if fist then 1.0 else 4.0)"

definition threshold :: "bool \<Rightarrow> Laser \<Rightarrow> real" where
  "threshold fist l = visualRadius l + flockRadius fist"

definition hitTest :: "real \<Rightarrow> real \<Rightarrow> bool \<Rightarrow> Laser \<Rightarrow> bool" where
  "hitTest cbx cby fist l = (distSq cbx cby l < threshold fist l * threshold fist l)"

text \<open>
  The loop \<open>for (const laser of prev)\<close>. It calls triggerDanger and incrementScore on
  the store while it builds nextLasers, so the model threads the store through the loop
  and returns it with the new list. \<open>collides\<close> is the condition under which the loop
  body calls triggerDanger.
\<close>

definition collides :: "real \<Rightarrow> real \<Rightarrow> real \<Rightarrow> bool \<Rightarrow> Laser \<Rightarrow> bool" where
  "collides delta cbx cby fist l =
     (let newZ = laser_z l + LASER_SPEED * delta;
          dz = \<bar>newZ - 0\<bar>
      in dz < 3.0 \<and> hitTest cbx cby fist l)"

fun updateLasers ::
  "real \<Rightarrow> real \<Rightarrow> real \<Rightarrow> real \<Rightarrow> bool \<Rightarrow> Laser list \<Rightarrow> GameState \<Rightarrow> GameState \<times> Laser list"
where
  "updateLasers delta now cbx cby fist [] s = (s, [])"
| "updateLasers delta now cbx cby fist (l # ls) s =
     (let newZ = laser_z l + LASER_SPEED * delta;
          s1 = (if collides delta cbx cby fist l then triggerDanger now s else s);
          s2 = (if newZ > 20 then incrementScore 10 s1 else s1);
          kept = (if newZ > 20 then [] else [l\<lparr>laser_z := newZ\<rparr>]);
          r = updateLasers delta now cbx cby fist ls s2
      in (fst r, kept @ snd r))"

text \<open>
  The component ObstacleManager holds the list of lasers (React state, initially empty)
  and two refs, lastSpawnTime and nextSpawnInterval. Together with the store they make
  the world that a frame transforms. The values of Math.random() that a frame may read
  are its argument of type Draws, one field for each call in the source.
\<close>

record World =
  store :: GameState
  lasers :: "Laser list"
  lastSpawnTime :: real
  nextSpawnInterval :: real

definition initialWorld :: World where
  "initialWorld =
     \<lparr> store = initialState, lasers = [], lastSpawnTime = 0, nextSpawnInterval = 1000 \<rparr>"

record Draws =
  rndInterval :: real
  rndOriginX :: real
  rndSpawnY :: real
  rndSide :: real
  rndAngle :: real
  rndLength :: real
  rndId :: real

definition spawnLaser :: "bool \<Rightarrow> Draws \<Rightarrow> Laser" where
  "spawnLaser isPhase1 r =
     (if isPhase1 then
        \<lparr> laser_id = rndId r, laser_z = - 200,
          laser_x = (rndOriginX r - 0.5) * 30,
          laser_y = - 5 + rndSpawnY r * 20,
          laser_width = 40 + rndLength r * 10,
          laser_side = (if rndSide r > 0.5 then 1 else - 1),
          laser_angle = (if rndAngle r > 0.5 then 1 else - 1) * (pi / 4),
          laser_type = Beam \<rparr>
      else
        \<lparr> laser_id = rndId r, laser_z = - 200,
          laser_x = (rndOriginX r - 0.5) * 60,
          laser_y = - 50,
          laser_width = 120,
          laser_side = - 1,
          laser_angle = pi / 2,
          laser_type = Pillar \<rparr>)"

text \<open>
  The callback of useFrame: \<open>delta\<close> is the frame time in seconds, \<open>time\<close> the clock's
  elapsed time in milliseconds, \<open>now\<close> the reading of Date.now(), one reading for all
  the calls of the frame. The values status, birdX, birdY, isFist and phase that the
  callback closes over are those of the store when the frame starts.
\<close>

definition useFrame :: "real \<Rightarrow> real \<Rightarrow> real \<Rightarrow> Draws \<Rightarrow> World \<Rightarrow> World" where
  "useFrame delta time now r w =
     (if status (store w) \<noteq> PLAYING then w
      else
        let g = store w;
            s1 = tickDangerTimer (delta * 1000) now g;
            isPhase1 = (phase g = CORRIDOR);
            minInterval = (if isPhase1 then LASER_SPAWN_INTERVAL_MIN_P1
                           else LASER_SPAWN_INTERVAL_MIN_P2);
            maxInterval = (if isPhase1 then LASER_SPAWN_INTERVAL_MAX_P1
                           else LASER_SPAWN_INTERVAL_MAX_P2);
            w1 = (if time - lastSpawnTime w > nextSpawnInterval w
                  then w\<lparr>lastSpawnTime := time,
                         nextSpawnInterval := minInterval + rndInterval r * (maxInterval - minInterval),
                         lasers := lasers w @ [spawnLaser isPhase1 r]\<rparr>
                  else w);
            currentBirdX = birdX g * SCENE_WIDTH;
            currentBirdY = birdY g * SCENE_HEIGHT + 5;
            u = updateLasers delta now currentBirdX currentBirdY (isFist g) (lasers w1) s1
        in w1\<lparr>store := fst u, lasers := snd u\<rparr>)"

text \<open>A run of frames, each with its own inputs.\<close>

fun frames :: "World \<Rightarrow> (real \<times> real \<times> real \<times> Draws) list \<Rightarrow> World" where
  "frames w [] = w"
| "frames w ((delta, time, now, r) # fs) = frames (useFrame delta time now r w) fs"

text \<open>
  The two buttons of the user interface: the start button calls setStatus(PLAYING), the
  restart buttons of the game-over and victory screens call resetGame. Neither touches
  the state of ObstacleManager.
\<close>

definition startClick :: "World \<Rightarrow> World" where
  "startClick w = w\<lparr>store := setStatus PLAYING (store w)\<rparr>"

definition restartClick :: "World \<Rightarrow> World" where
  "restartClick w = w\<lparr>store := resetGame (store w)\<rparr>"

section \<open>Runs of the store\<close>

text \<open>
  A run applies a list of actions, each with the clock reading at which it happens.
  \<open>scoreAll\<close> is the run that only increments the score.
\<close>

fun run :: "GameState \<Rightarrow> (real \<times> Action) list \<Rightarrow> GameState" where
  "run s [] = s"
| "run s ((now, a) # as) = run (dispatch now a s) as"

fun scoreAll :: "GameState \<Rightarrow> real list \<Rightarrow> GameState" where
  "scoreAll s [] = s"
| "scoreAll s (d # ds) = scoreAll (incrementScore d s) ds"

text \<open>
  Two predicates used to state the properties of runs, not part of the program: the
  game operations (a score increment by a non-negative amount, trigger, resolve, tick),
  and the actions that are a failed rescue in a given state (a resolve without success
  or a tick that uses up the timer, while the warning is on).
\<close>

fun gameOp :: "Action \<Rightarrow> bool" where
  "gameOp (IncrementScore amount) = (0 \<le> amount)"
| "gameOp TriggerDanger = True"
| "gameOp (ResolveDanger success) = True"
| "gameOp (TickDangerTimer deltaMs) = True"
| "gameOp _ = False"

fun failedRescue :: "Action \<Rightarrow> GameState \<Rightarrow> bool" where
  "failedRescue (ResolveDanger success) s = (\<not> success \<and> dangerStatus s = WARNING)"
| "failedRescue (TickDangerTimer deltaMs) s =
     (dangerStatus s = WARNING \<and> dangerTimer s - deltaMs \<le> 0)"
| "failedRescue _ s = False"

text \<open>
  The properties that hold of the store in every state of a game, as one predicate. It
  is what the proofs about runs carry along; the theorems state its parts in full.
\<close>

definition storeInv :: "GameState \<Rightarrow> bool" where
  "storeInv s =
     ((phase s = HIGH_ALTITUDE \<longrightarrow> score s > 300)
      \<and> (status s = GAME_WON \<longrightarrow> score s \<ge> 800)
      \<and> (status s = GAME_OVER \<longrightarrow> birdCount s = 0)
      \<and> birdCount s \<in> \<int> \<and> 0 \<le> birdCount s \<and> birdCount s \<le> 16)"

text \<open>
  A scenario used as a concrete input below: sixteen collisions, 5000 ms apart, each
  followed 3000 ms later by the tick that uses up the timer.
\<close>

definition sixteenLosses :: "(real \<times> Action) list" where
  "sixteenLosses =
     concat (map (\<lambda>k. [(5000 * real k, TriggerDanger),
                        (5000 * real k + 3000, TickDangerTimer 3000)]) [1..<17])"

section \<open>Score and phase (incrementScore)\<close>

text \<open>
  C2. For every state and every amount, incrementScore adds the amount to the score;
  the phase is set to HIGH_ALTITUDE when it was CORRIDOR and the new score is above 300
  and is otherwise left as it was, so a change of phase to HIGH_ALTITUDE happens exactly
  in that case; the status is set to GAME_WON when the new score is at least 800 and the
  status was not GAME_WON and is otherwise left as it was, so a change of status to
  GAME_WON happens exactly in that case; every other field keeps its value. The action
  is a total function: there is no input on which it fails.
\<close>

theorem incrementScore_spec:
  "score (incrementScore d s) = score s + d
   \<and> phase (incrementScore d s) =
       (if phase s = CORRIDOR \<and> score s + d > 300 then HIGH_ALTITUDE else phase s)
   \<and> ((phase s \<noteq> HIGH_ALTITUDE \<and> phase (incrementScore d s) = HIGH_ALTITUDE)
        = (phase s = CORRIDOR \<and> score s + d > 300))
   \<and> status (incrementScore d s) =
       (if score s + d \<ge> 800 \<and> status s \<noteq> GAME_WON then GAME_WON else status s)
   \<and> ((status s \<noteq> GAME_WON \<and> status (incrementScore d s) = GAME_WON)
        = (score s + d \<ge> 800 \<and> status s \<noteq> GAME_WON))
   \<and> dangerStatus (incrementScore d s) = dangerStatus s
   \<and> birdCount (incrementScore d s) = birdCount s
   \<and> birdX (incrementScore d s) = birdX s
   \<and> birdY (incrementScore d s) = birdY s
   \<and> cameraPermissionGranted (incrementScore d s) = cameraPermissionGranted s
   \<and> handDetected (incrementScore d s) = handDetected s
   \<and> isFist (incrementScore d s) = isFist s
   \<and> lastHitTime (incrementScore d s) = lastHitTime s
   \<and> dangerTimer (incrementScore d s) = dangerTimer s
   \<and> GameState.more (incrementScore d s) = GameState.more s"
  by (cases "phase s") (simp_all add: incrementScore_def Let_def)

section \<open>The danger state machine (triggerDanger, resolveDanger, tickDangerTimer)\<close>

text \<open>
  C3. For every state and clock reading, triggerDanger returns the state unchanged when
  dangerStatus is WARNING or fewer than 2000 ms have passed since lastHitTime; otherwise
  it sets dangerStatus to WARNING, dangerTimer to 3000 and lastHitTime to the clock
  reading, and every other field keeps its value. After a trigger that took effect, a
  second trigger less than 2000 ms later, with nothing in between, returns the state
  unchanged.
\<close>

theorem triggerDanger_spec:
  "(dangerStatus s = WARNING \<or> now - lastHitTime s < 2000 \<longrightarrow> triggerDanger now s = s)
   \<and> (\<not> (dangerStatus s = WARNING \<or> now - lastHitTime s < 2000) \<longrightarrow>
        triggerDanger now s = s\<lparr>dangerStatus := WARNING, dangerTimer := 3000, lastHitTime := now\<rparr>
        \<and> dangerStatus (triggerDanger now s) = WARNING
        \<and> dangerTimer (triggerDanger now s) = 3000
        \<and> lastHitTime (triggerDanger now s) = now
        \<and> status (triggerDanger now s) = status s
        \<and> phase (triggerDanger now s) = phase s
        \<and> score (triggerDanger now s) = score s
        \<and> birdCount (triggerDanger now s) = birdCount s
        \<and> birdX (triggerDanger now s) = birdX s
        \<and> birdY (triggerDanger now s) = birdY s
        \<and> cameraPermissionGranted (triggerDanger now s) = cameraPermissionGranted s
        \<and> handDetected (triggerDanger now s) = handDetected s
        \<and> isFist (triggerDanger now s) = isFist s
        \<and> GameState.more (triggerDanger now s) = GameState.more s
        \<and> (\<forall>now2. now2 - now < 2000 \<longrightarrow>
              triggerDanger now2 (triggerDanger now s) = triggerDanger now s))"
  by (simp add: triggerDanger_def)

theorem triggerDanger_spec_witness:
  "\<not> (dangerStatus initialState = WARNING \<or> 5000 - lastHitTime initialState < 2000)
   \<and> triggerDanger 5000 initialState
       = initialState\<lparr>dangerStatus := WARNING, dangerTimer := 3000, lastHitTime := 5000\<rparr>
   \<and> 6000 - (5000::real) < 2000
   \<and> triggerDanger 6000 (triggerDanger 5000 initialState) = triggerDanger 5000 initialState
   \<and> (dangerStatus initialState = WARNING \<or> 1000 - lastHitTime initialState < 2000)
   \<and> triggerDanger 1000 initialState = initialState"
  using triggerDanger_spec [of initialState 5000] triggerDanger_spec [of initialState 1000]
  by (simp add: initialState_def triggerDanger_def)

text \<open>
  C4. For every state, resolveDanger returns the state unchanged when dangerStatus is not
  WARNING. When it is WARNING, the new birdCount is max(0, birdCount - 1) without success
  and the old birdCount with success, dangerStatus becomes SAFE, lastHitTime becomes the
  clock reading, and status is set to GAME_OVER when the new birdCount is at most 0 and
  otherwise keeps its value; every other field, dangerTimer among them, keeps its value.
\<close>

theorem resolveDanger_spec:
  "(dangerStatus s \<noteq> WARNING \<longrightarrow> resolveDanger success now s = s)
   \<and> (dangerStatus s = WARNING \<longrightarrow>
        birdCount (resolveDanger success now s)
          = (if success then birdCount s else max 0 (birdCount s - 1))
        \<and> dangerStatus (resolveDanger success now s) = SAFE
        \<and> lastHitTime (resolveDanger success now s) = now
        \<and> status (resolveDanger success now s)
          = (if birdCount (resolveDanger success now s) \<le> 0 then GAME_OVER else status s)
        \<and> phase (resolveDanger success now s) = phase s
        \<and> score (resolveDanger success now s) = score s
        \<and> birdX (resolveDanger success now s) = birdX s
        \<and> birdY (resolveDanger success now s) = birdY s
        \<and> cameraPermissionGranted (resolveDanger success now s) = cameraPermissionGranted s
        \<and> handDetected (resolveDanger success now s) = handDetected s
        \<and> isFist (resolveDanger success now s) = isFist s
        \<and> dangerTimer (resolveDanger success now s) = dangerTimer s
        \<and> GameState.more (resolveDanger success now s) = GameState.more s)"
  by (simp add: resolveDanger_def Let_def)

theorem resolveDanger_spec_witness:
  "dangerStatus initialState \<noteq> WARNING
   \<and> resolveDanger False 9000 initialState = initialState
   \<and> dangerStatus (triggerDanger 5000 initialState) = WARNING
   \<and> birdCount (resolveDanger False 9000 (triggerDanger 5000 initialState)) = 15
   \<and> birdCount (resolveDanger True 9000 (triggerDanger 5000 initialState)) = 16
   \<and> dangerStatus (resolveDanger False 9000 (triggerDanger 5000 initialState)) = SAFE
   \<and> lastHitTime (resolveDanger False 9000 (triggerDanger 5000 initialState)) = 9000
   \<and> status (resolveDanger False 9000 (triggerDanger 5000 initialState)) = MENU"
  using resolveDanger_spec [of initialState False 9000]
    resolveDanger_spec [of "triggerDanger 5000 initialState" False 9000]
    resolveDanger_spec [of "triggerDanger 5000 initialState" True 9000]
  by (simp add: initialState_def triggerDanger_def resolveDanger_def)

text \<open>
  C5. For every state with dangerStatus WARNING and every deltaMs with
  dangerTimer - deltaMs at most 0, tickDangerTimer yields the state that
  resolveDanger without success yields at the same clock reading, with dangerTimer set
  to 0 in addition, in one update: birdCount becomes max(0, birdCount - 1), dangerStatus
  becomes SAFE, dangerTimer becomes 0, and status is set to GAME_OVER when the new
  birdCount is 0 and otherwise keeps its value (so, from a state whose status is not
  GAME_OVER unless its birdCount is 0, as every state of a game is, the new status is
  GAME_OVER exactly when the new birdCount is 0). When dangerTimer - deltaMs is above 0,
  only dangerTimer changes, to that difference.
\<close>

theorem tickDangerTimer_spec:
  "(dangerStatus s = WARNING \<and> dangerTimer s - deltaMs \<le> 0 \<longrightarrow>
        tickDangerTimer deltaMs now s = (resolveDanger False now s)\<lparr>dangerTimer := 0\<rparr>
        \<and> birdCount (tickDangerTimer deltaMs now s) = max 0 (birdCount s - 1)
        \<and> dangerStatus (tickDangerTimer deltaMs now s) = SAFE
        \<and> dangerTimer (tickDangerTimer deltaMs now s) = 0
        \<and> status (tickDangerTimer deltaMs now s)
            = (if birdCount (tickDangerTimer deltaMs now s) = 0 then GAME_OVER else status s)
        \<and> ((status s = GAME_OVER \<longrightarrow> birdCount s = 0) \<longrightarrow>
             (status (tickDangerTimer deltaMs now s) = GAME_OVER)
               = (birdCount (tickDangerTimer deltaMs now s) = 0)))
   \<and> (dangerStatus s = WARNING \<and> dangerTimer s - deltaMs > 0 \<longrightarrow>
        tickDangerTimer deltaMs now s = s\<lparr>dangerTimer := dangerTimer s - deltaMs\<rparr>)"
  by (auto simp add: tickDangerTimer_def resolveDanger_def Let_def max_def)

theorem tickDangerTimer_spec_witness:
  "dangerStatus (triggerDanger 5000 initialState) = WARNING
   \<and> dangerTimer (triggerDanger 5000 initialState) - 3000 \<le> 0
   \<and> tickDangerTimer 3000 8000 (triggerDanger 5000 initialState)
       = (resolveDanger False 8000 (triggerDanger 5000 initialState))\<lparr>dangerTimer := 0\<rparr>
   \<and> birdCount (tickDangerTimer 3000 8000 (triggerDanger 5000 initialState)) = 15
   \<and> status (triggerDanger 5000 initialState) \<noteq> GAME_OVER
   \<and> status (tickDangerTimer 3000 8000 (triggerDanger 5000 initialState)) \<noteq> GAME_OVER
   \<and> dangerTimer (triggerDanger 5000 initialState) - 1000 > 0
   \<and> tickDangerTimer 1000 6000 (triggerDanger 5000 initialState)
       = (triggerDanger 5000 initialState)\<lparr>dangerTimer := 2000\<rparr>"
  using tickDangerTimer_spec [of "triggerDanger 5000 initialState" 3000 8000]
    tickDangerTimer_spec [of "triggerDanger 5000 initialState" 1000 6000]
  by (simp add: initialState_def triggerDanger_def tickDangerTimer_def resolveDanger_def)

text \<open>
  C10. resolveDanger never writes dangerTimer: for every state, with or without success,
  dangerTimer after resolveDanger is what it was before. So a failed manual rescue can
  leave dangerStatus SAFE beside a positive dangerTimer (3000 in the state reached from
  the initial one by a trigger at 5000 and a failed resolve at 9000). Among all actions
  of the store, only resetGame and a tick that uses up the timer during a warning take
  dangerTimer from a value other than 0 to 0, and both always leave it 0.
\<close>

theorem resolveDanger_keeps_dangerTimer:
  "dangerTimer (resolveDanger success now s) = dangerTimer s
   \<and> (dangerStatus (resolveDanger False 9000 (triggerDanger 5000 initialState)) = SAFE
      \<and> dangerTimer (resolveDanger False 9000 (triggerDanger 5000 initialState)) = 3000)
   \<and> (dangerTimer s \<noteq> 0 \<and> dangerTimer (dispatch now a s) = 0 \<longrightarrow>
        a = ResetGame
        \<or> (\<exists>deltaMs. a = TickDangerTimer deltaMs
              \<and> dangerStatus s = WARNING \<and> dangerTimer s - deltaMs \<le> 0))
   \<and> dangerTimer (resetGame s) = 0
   \<and> (dangerStatus s = WARNING \<and> dangerTimer s - deltaMs \<le> 0 \<longrightarrow>
        dangerTimer (tickDangerTimer deltaMs now s) = 0)"
proof -
  have keep: "dangerTimer (resolveDanger success now s) = dangerTimer s"
    by (simp add: resolveDanger_def Let_def)
  have stale: "dangerStatus (resolveDanger False 9000 (triggerDanger 5000 initialState)) = SAFE
      \<and> dangerTimer (resolveDanger False 9000 (triggerDanger 5000 initialState)) = 3000"
    by (simp add: resolveDanger_def triggerDanger_def initialState_def Let_def)
  have only: "dangerTimer s \<noteq> 0 \<and> dangerTimer (dispatch now a s) = 0 \<longrightarrow>
        a = ResetGame
        \<or> (\<exists>deltaMs. a = TickDangerTimer deltaMs
              \<and> dangerStatus s = WARNING \<and> dangerTimer s - deltaMs \<le> 0)"
    by (cases a)
      (auto simp add: setStatus_def setBirdX_def setBirdY_def setIsFist_def
        incrementScore_def triggerDanger_def resolveDanger_def tickDangerTimer_def
        setCameraPermission_def setHandDetected_def Let_def split: if_splits)
  have zero: "dangerTimer (resetGame s) = 0"
    by (simp add: resetGame_def)
  have expiry: "dangerStatus s = WARNING \<and> dangerTimer s - deltaMs \<le> 0 \<longrightarrow>
        dangerTimer (tickDangerTimer deltaMs now s) = 0"
    by (simp add: tickDangerTimer_def Let_def)
  from keep stale only zero expiry show ?thesis by blast
qed

theorem resolveDanger_keeps_dangerTimer_witness:
  "dangerTimer (triggerDanger 5000 initialState) \<noteq> 0
   \<and> dangerTimer (dispatch 8000 (TickDangerTimer 3000) (triggerDanger 5000 initialState)) = 0
   \<and> dangerStatus (triggerDanger 5000 initialState) = WARNING
   \<and> dangerTimer (triggerDanger 5000 initialState) - 3000 \<le> 0
   \<and> dangerTimer (resolveDanger True 8000 (triggerDanger 5000 initialState)) = 3000"
  using resolveDanger_keeps_dangerTimer
    [where success = True and now = 8000 and s = "triggerDanger 5000 initialState"
       and a = "TickDangerTimer 3000" and deltaMs = 3000]
  by (simp add: initialState_def triggerDanger_def tickDangerTimer_def)

section \<open>Runs of score increments\<close>

lemma scoreAll_append: "scoreAll s (ds @ es) = scoreAll (scoreAll s ds) es"
  by (induction ds arbitrary: s) simp_all

lemma scoreAll_snoc: "scoreAll s (ds @ [d]) = incrementScore d (scoreAll s ds)"
  by (simp add: scoreAll_append)

lemma score_scoreAll: "score (scoreAll s ds) = score s + sum_list ds"
  by (induction ds arbitrary: s) (simp_all add: incrementScore_def Let_def)

lemma phase_scoreAll_high: "phase s = HIGH_ALTITUDE \<Longrightarrow> phase (scoreAll s ds) = HIGH_ALTITUDE"
  by (induction ds arbitrary: s) (simp_all add: incrementScore_def Let_def)

lemma sum_list_take_mono:
  fixes ds :: "real list"
  assumes "\<forall>d \<in> set ds. 0 \<le> d" "j \<le> k"
  shows "sum_list (take j ds) \<le> sum_list (take k ds)"
proof -
  have "take k ds = take j ds @ take (k - j) (drop j ds)"
    using assms(2) by (metis le_add_diff_inverse take_add)
  moreover have "0 \<le> sum_list (take (k - j) (drop j ds))"
    using assms(1) by (intro sum_list_nonneg) (meson in_set_dropD in_set_takeD)
  ultimately show ?thesis by simp
qed

lemma phase_scoreAll:
  assumes "\<forall>d \<in> set ds. 0 \<le> d" "phase s = CORRIDOR" "score s = 0"
  shows "phase (scoreAll s ds) = (if sum_list ds > 300 then HIGH_ALTITUDE else CORRIDOR)"
  using assms(1)
proof (induction ds rule: rev_induct)
  case Nil
  then show ?case using assms by simp
next
  case (snoc d ds)
  then have "0 \<le> d" and IH: "phase (scoreAll s ds) = (if sum_list ds > 300 then HIGH_ALTITUDE else CORRIDOR)"
    by simp_all
  show ?case
    using IH \<open>0 \<le> d\<close> assms(3)
    by (auto simp add: scoreAll_snoc incrementScore_def Let_def score_scoreAll)
qed

text \<open>
  C9. Take any list of non-negative amounts and add them to the score one after the other,
  from the initial state (or from a state just reset). After \<open>k\<close> of them the score is
  the sum of the first \<open>k\<close> amounts, so the score never decreases along the run. The
  phase after \<open>k\<close> amounts is HIGH_ALTITUDE when that sum is above 300 and CORRIDOR
  otherwise. Hence the step from CORRIDOR to HIGH_ALTITUDE is taken at the \<open>k\<close>-th
  amount exactly when it is the first to bring the sum above 300; it is taken at most
  once, and once when the whole sum is above 300; and after it the phase is
  HIGH_ALTITUDE at every later point of the run.
\<close>

theorem scoreAll_progress:
  assumes nonneg: "\<forall>d \<in> set ds. 0 \<le> d"
    and start: "s0 = initialState \<or> s0 = resetGame p"
  shows "(\<forall>k \<le> length ds. score (scoreAll s0 (take k ds)) = sum_list (take k ds))
    \<and> (\<forall>j k. j \<le> k \<and> k \<le> length ds \<longrightarrow>
          score (scoreAll s0 (take j ds)) \<le> score (scoreAll s0 (take k ds)))
    \<and> (\<forall>k \<le> length ds. phase (scoreAll s0 (take k ds))
          = (if sum_list (take k ds) > 300 then HIGH_ALTITUDE else CORRIDOR))
    \<and> (\<forall>k < length ds.
          (phase (scoreAll s0 (take k ds)) = CORRIDOR
             \<and> phase (scoreAll s0 (take (Suc k) ds)) = HIGH_ALTITUDE)
          = (sum_list (take k ds) \<le> 300 \<and> sum_list (take (Suc k) ds) > 300
             \<and> (\<forall>j \<le> k. sum_list (take j ds) \<le> 300)))
    \<and> (\<forall>j k. j < length ds \<and> k < length ds
          \<and> phase (scoreAll s0 (take j ds)) = CORRIDOR
          \<and> phase (scoreAll s0 (take (Suc j) ds)) = HIGH_ALTITUDE
          \<and> phase (scoreAll s0 (take k ds)) = CORRIDOR
          \<and> phase (scoreAll s0 (take (Suc k) ds)) = HIGH_ALTITUDE \<longrightarrow> j = k)
    \<and> (sum_list ds > 300 \<longrightarrow>
          (\<exists>k < length ds. phase (scoreAll s0 (take k ds)) = CORRIDOR
             \<and> phase (scoreAll s0 (take (Suc k) ds)) = HIGH_ALTITUDE))
    \<and> (\<forall>j k. j \<le> k \<and> k \<le> length ds
          \<and> phase (scoreAll s0 (take j ds)) = HIGH_ALTITUDE \<longrightarrow>
          phase (scoreAll s0 (take k ds)) = HIGH_ALTITUDE)"
proof -
  have s0: "phase s0 = CORRIDOR" "score s0 = 0"
    using start by (auto simp add: initialState_def resetGame_def)
  have nn: "\<forall>d \<in> set (take k ds). 0 \<le> d" for k
    using nonneg by (meson in_set_takeD)
  have sc: "score (scoreAll s0 (take k ds)) = sum_list (take k ds)" for k
    by (simp add: score_scoreAll s0)
  have ph: "phase (scoreAll s0 (take k ds))
      = (if sum_list (take k ds) > 300 then HIGH_ALTITUDE else CORRIDOR)" for k
    by (rule phase_scoreAll [OF nn s0])
  have mono: "sum_list (take j ds) \<le> sum_list (take k ds)" if "j \<le> k" for j k
    by (rule sum_list_take_mono [OF nonneg that])
  have c1: "\<forall>k \<le> length ds. score (scoreAll s0 (take k ds)) = sum_list (take k ds)"
    by (simp add: sc)
  have c2: "\<forall>j k. j \<le> k \<and> k \<le> length ds \<longrightarrow>
          score (scoreAll s0 (take j ds)) \<le> score (scoreAll s0 (take k ds))"
    by (simp add: sc mono)
  have c3: "\<forall>k \<le> length ds. phase (scoreAll s0 (take k ds))
          = (if sum_list (take k ds) > 300 then HIGH_ALTITUDE else CORRIDOR)"
    by (simp add: ph)
  have c4: "\<forall>k < length ds.
          (phase (scoreAll s0 (take k ds)) = CORRIDOR
             \<and> phase (scoreAll s0 (take (Suc k) ds)) = HIGH_ALTITUDE)
          = (sum_list (take k ds) \<le> 300 \<and> sum_list (take (Suc k) ds) > 300
             \<and> (\<forall>j \<le> k. sum_list (take j ds) \<le> 300))"
  proof (intro allI impI)
    fix k assume "k < length ds"
    have "sum_list (take k ds) \<le> 300 \<Longrightarrow> \<forall>j \<le> k. sum_list (take j ds) \<le> 300"
      using mono by (meson order_trans)
    then show "(phase (scoreAll s0 (take k ds)) = CORRIDOR
             \<and> phase (scoreAll s0 (take (Suc k) ds)) = HIGH_ALTITUDE)
          = (sum_list (take k ds) \<le> 300 \<and> sum_list (take (Suc k) ds) > 300
             \<and> (\<forall>j \<le> k. sum_list (take j ds) \<le> 300))"
      unfolding ph by (auto simp add: not_less)
  qed
  have c5: "\<forall>j k. j < length ds \<and> k < length ds
          \<and> phase (scoreAll s0 (take j ds)) = CORRIDOR
          \<and> phase (scoreAll s0 (take (Suc j) ds)) = HIGH_ALTITUDE
          \<and> phase (scoreAll s0 (take k ds)) = CORRIDOR
          \<and> phase (scoreAll s0 (take (Suc k) ds)) = HIGH_ALTITUDE \<longrightarrow> j = k"
  proof (intro allI impI)
    fix j k
    assume a: "j < length ds \<and> k < length ds
          \<and> phase (scoreAll s0 (take j ds)) = CORRIDOR
          \<and> phase (scoreAll s0 (take (Suc j) ds)) = HIGH_ALTITUDE
          \<and> phase (scoreAll s0 (take k ds)) = CORRIDOR
          \<and> phase (scoreAll s0 (take (Suc k) ds)) = HIGH_ALTITUDE"
    then have j: "sum_list (take j ds) \<le> 300" "sum_list (take (Suc j) ds) > 300"
      and k: "sum_list (take k ds) \<le> 300" "sum_list (take (Suc k) ds) > 300"
      unfolding ph by (auto simp add: not_less split: if_splits)
    show "j = k"
    proof (rule ccontr)
      assume "j \<noteq> k"
      then consider "Suc j \<le> k" | "Suc k \<le> j" by linarith
      then show False
      proof cases
        case 1
        from mono [OF 1] j(2) k(1) show False by linarith
      next
        case 2
        from mono [OF 2] k(2) j(1) show False by linarith
      qed
    qed
  qed
  have c6: "\<forall>j k. j \<le> k \<and> k \<le> length ds
          \<and> phase (scoreAll s0 (take j ds)) = HIGH_ALTITUDE \<longrightarrow>
          phase (scoreAll s0 (take k ds)) = HIGH_ALTITUDE"
  proof (intro allI impI)
    fix j k
    assume a: "j \<le> k \<and> k \<le> length ds \<and> phase (scoreAll s0 (take j ds)) = HIGH_ALTITUDE"
    then have "sum_list (take j ds) > 300"
      unfolding ph by (auto split: if_splits)
    with mono [of j k] a have "sum_list (take k ds) > 300" by linarith
    then show "phase (scoreAll s0 (take k ds)) = HIGH_ALTITUDE"
      unfolding ph by simp
  qed
  have c7: "sum_list ds > 300 \<longrightarrow>
          (\<exists>k < length ds. phase (scoreAll s0 (take k ds)) = CORRIDOR
             \<and> phase (scoreAll s0 (take (Suc k) ds)) = HIGH_ALTITUDE)"
  proof
    assume big: "sum_list ds > 300"
    define P where "P k = (sum_list (take k ds) > 300)" for k
    have "P (length ds)" using big by (simp add: P_def)
    then have PL: "P (LEAST k. P k)" and le: "(LEAST k. P k) \<le> length ds"
      by (rule LeastI, rule Least_le)
    have "\<not> P 0" by (simp add: P_def)
    with PL have "(LEAST k. P k) \<noteq> 0" by metis
    then obtain m where m: "(LEAST k. P k) = Suc m"
      using not0_implies_Suc by blast
    have "\<not> P m"
      using not_less_Least [of m P] m by simp
    moreover have "P (Suc m)" using PL m by simp
    moreover have "m < length ds" using le m by simp
    ultimately have "m < length ds \<and> phase (scoreAll s0 (take m ds)) = CORRIDOR
        \<and> phase (scoreAll s0 (take (Suc m) ds)) = HIGH_ALTITUDE"
      unfolding ph P_def by simp
    then show "\<exists>k < length ds. phase (scoreAll s0 (take k ds)) = CORRIDOR
             \<and> phase (scoreAll s0 (take (Suc k) ds)) = HIGH_ALTITUDE"
      by blast
  qed
  show ?thesis
    by (intro conjI) (rule c1 c2 c3 c4 c5 c7 c6)+
qed

theorem scoreAll_progress_witness:
  "(0::real) \<le> 100 \<and> (0::real) \<le> 150 \<and> (0::real) \<le> 60 \<and> (0::real) \<le> 10
   \<and> score (scoreAll initialState (take 3 [100, 150, 60, 10])) = 310
   \<and> score (scoreAll initialState (take 2 [100, 150, 60, 10]))
       \<le> score (scoreAll initialState (take 3 [100, 150, 60, 10]))
   \<and> phase (scoreAll initialState (take 2 [100, 150, 60, 10])) = CORRIDOR
   \<and> phase (scoreAll initialState (take 3 [100, 150, 60, 10])) = HIGH_ALTITUDE
   \<and> phase (scoreAll initialState (take 4 [100, 150, 60, 10])) = HIGH_ALTITUDE"
proof -
  let ?L = "[100, 150, 60, 10::real]"
  have nn: "\<forall>d \<in> set ?L. 0 \<le> d" by simp
  have st: "initialState = initialState \<or> initialState = resetGame initialState" by simp
  note p = scoreAll_progress [OF nn st]
  note sc = p [THEN conjunct1, rule_format]
  note ph = p [THEN conjunct2, THEN conjunct2, THEN conjunct1, rule_format]
  have l: "2 \<le> length ?L" "3 \<le> length ?L" "4 \<le> length ?L" by simp_all
  from sc [OF l(2)] have s3: "score (scoreAll initialState (take 3 ?L)) = 310" by simp
  from sc [OF l(1)] have s2: "score (scoreAll initialState (take 2 ?L)) = 250" by simp
  from ph [OF l(1)] have p2: "phase (scoreAll initialState (take 2 ?L)) = CORRIDOR" by simp
  from ph [OF l(2)] have p3: "phase (scoreAll initialState (take 3 ?L)) = HIGH_ALTITUDE" by simp
  from ph [OF l(3)] have p4: "phase (scoreAll initialState (take 4 ?L)) = HIGH_ALTITUDE" by simp
  from s2 s3 p2 p3 p4 show ?thesis by simp
qed

section \<open>Invariants of a game\<close>

lemma run_append: "run s (as @ bs) = run (run s as) bs"
  by (induction as arbitrary: s) auto

lemma run_snoc: "run s (as @ [(now, a)]) = dispatch now a (run s as)"
  by (simp add: run_append)

lemma max_pred_Ints: "(b::real) \<in> \<int> \<Longrightarrow> max 0 (b - 1) \<in> \<int>"
  by (simp add: max_def)

lemma storeInv_start: "storeInv initialState" "storeInv (resetGame p)"
  by (simp_all add: storeInv_def initialState_def resetGame_def)

lemma storeInv_incrementScore: "storeInv s \<Longrightarrow> 0 \<le> d \<Longrightarrow> storeInv (incrementScore d s)"
  by (auto simp add: storeInv_def incrementScore_def Let_def)

lemma storeInv_triggerDanger: "storeInv s \<Longrightarrow> storeInv (triggerDanger now s)"
  by (auto simp add: storeInv_def triggerDanger_def)

lemma storeInv_resolveDanger: "storeInv s \<Longrightarrow> storeInv (resolveDanger success now s)"
  by (auto simp add: storeInv_def resolveDanger_def Let_def max_pred_Ints)

lemma storeInv_tickDangerTimer: "storeInv s \<Longrightarrow> storeInv (tickDangerTimer deltaMs now s)"
  by (auto simp add: storeInv_def tickDangerTimer_def Let_def max_pred_Ints)

lemma storeInv_dispatch: "storeInv s \<Longrightarrow> gameOp a \<Longrightarrow> storeInv (dispatch now a s)"
  by (cases a)
    (simp_all add: storeInv_incrementScore storeInv_triggerDanger storeInv_resolveDanger storeInv_tickDangerTimer)

lemma storeInv_run: "storeInv s \<Longrightarrow> \<forall>x \<in> set as. gameOp (snd x) \<Longrightarrow> storeInv (run s as)"
proof (induction as arbitrary: s)
  case Nil
  then show ?case by simp
next
  case (Cons x as)
  obtain now a where x: "x = (now, a)" by (cases x)
  from Cons.prems have "storeInv (dispatch now a s)"
    by (simp add: x storeInv_dispatch)
  with Cons show ?case by (simp add: x)
qed

lemma Ints_pos_ge1: "(b::real) \<in> \<int> \<Longrightarrow> 0 \<le> b \<Longrightarrow> b \<noteq> 0 \<Longrightarrow> 1 \<le> b"
  by (metis Ints_nonzero_abs_ge1 abs_of_nonneg)

lemma birdCount_step:
  assumes "storeInv s" "gameOp a"
  shows "birdCount (dispatch now a s) \<le> birdCount s
    \<and> (birdCount (dispatch now a s) \<noteq> birdCount s \<longrightarrow>
          failedRescue a s \<and> birdCount (dispatch now a s) = birdCount s - 1)"
proof -
  have b: "birdCount s \<in> \<int>" "0 \<le> birdCount s"
    using assms(1) by (simp_all add: storeInv_def)
  have m: "max 0 (birdCount s - 1) \<le> birdCount s"
    using b(2) by simp
  have e: "max 0 (birdCount s - 1) \<noteq> birdCount s \<Longrightarrow> max 0 (birdCount s - 1) = birdCount s - 1"
  proof -
    assume a: "max 0 (birdCount s - 1) \<noteq> birdCount s"
    have "birdCount s \<noteq> 0"
    proof
      assume "birdCount s = 0"
      with a show False by simp
    qed
    then have "1 \<le> birdCount s" by (rule Ints_pos_ge1 [OF b])
    then show ?thesis by simp
  qed
  show ?thesis
    using assms(2) m e
    by (cases a)
      (auto simp add: incrementScore_def triggerDanger_def resolveDanger_def
        tickDangerTimer_def Let_def)
qed

text \<open>
  C8. Start from the initial state or from a state just reset and apply any list of game
  operations (score increments by non-negative amounts, trigger, resolve, tick, at any
  clock readings). In the state reached: if the phase is HIGH_ALTITUDE then the score was
  above 300 at some point of the run; if the status is GAME_WON then the score is at
  least 800; if the status is GAME_OVER then birdCount is 0; birdCount is an integer
  between 0 and 16, and it was 16 at the start. Any further game operation leaves
  birdCount the same or smaller, and it makes it smaller only when it is a failed rescue
  (a resolve without success or a tick that uses up the timer, during a warning), and
  then by exactly 1.
\<close>

theorem game_invariants:
  assumes start: "s0 = initialState \<or> s0 = resetGame p"
    and ops: "\<forall>x \<in> set as. gameOp (snd x)"
  shows "(phase (run s0 as) = HIGH_ALTITUDE \<longrightarrow>
            (\<exists>k \<le> length as. score (run s0 (take k as)) > 300))
    \<and> (status (run s0 as) = GAME_WON \<longrightarrow> score (run s0 as) \<ge> 800)
    \<and> (status (run s0 as) = GAME_OVER \<longrightarrow> birdCount (run s0 as) = 0)
    \<and> birdCount (run s0 as) \<in> \<int> \<and> 0 \<le> birdCount (run s0 as) \<and> birdCount (run s0 as) \<le> 16
    \<and> birdCount s0 = 16
    \<and> (\<forall>now a. gameOp a \<longrightarrow>
          birdCount (dispatch now a (run s0 as)) \<le> birdCount (run s0 as)
          \<and> (birdCount (dispatch now a (run s0 as)) \<noteq> birdCount (run s0 as) \<longrightarrow>
                failedRescue a (run s0 as)
                \<and> birdCount (dispatch now a (run s0 as)) = birdCount (run s0 as) - 1))"
proof -
  have "storeInv s0"
    using start storeInv_start by auto
  then have i: "storeInv (run s0 as)"
    using ops by (rule storeInv_run)
  have "phase (run s0 as) = HIGH_ALTITUDE \<longrightarrow>
            (\<exists>k \<le> length as. score (run s0 (take k as)) > 300)"
  proof
    assume "phase (run s0 as) = HIGH_ALTITUDE"
    with i have "score (run s0 (take (length as) as)) > 300"
      by (simp add: storeInv_def)
    then show "\<exists>k \<le> length as. score (run s0 (take k as)) > 300"
      by blast
  qed
  moreover have "birdCount s0 = 16"
    using start by (auto simp add: initialState_def resetGame_def)
  moreover note birdCount_step [OF i]
  ultimately show ?thesis
    using i by (simp add: storeInv_def)
qed

lemma sixteenLosses_ops: "\<forall>x \<in> set sixteenLosses. gameOp (snd x)"
  by (simp add: sixteenLosses_def upt_rec)

lemma sixteenLosses_end:
  "run (resetGame initialState) sixteenLosses
     = initialState\<lparr>status := GAME_OVER, birdCount := 0, lastHitTime := 83000\<rparr>"
  by (simp add: sixteenLosses_def upt_rec initialState_def resetGame_def triggerDanger_def
      tickDangerTimer_def Let_def)

theorem game_invariants_witness:
  "status (run (resetGame initialState) sixteenLosses) = GAME_OVER
   \<and> birdCount (run (resetGame initialState) sixteenLosses) = 0
   \<and> phase (run initialState [(0, IncrementScore 810)]) = HIGH_ALTITUDE
   \<and> score (run initialState (take 1 [(0, IncrementScore 810)])) > 300
   \<and> status (run initialState [(0, IncrementScore 810)]) = GAME_WON
   \<and> score (run initialState [(0, IncrementScore 810)]) \<ge> 800
   \<and> gameOp (ResolveDanger False)
   \<and> failedRescue (ResolveDanger False) (run initialState [(5000, TriggerDanger)])
   \<and> birdCount (dispatch 6000 (ResolveDanger False) (run initialState [(5000, TriggerDanger)]))
       \<noteq> birdCount (run initialState [(5000, TriggerDanger)])
   \<and> birdCount (dispatch 6000 (ResolveDanger False) (run initialState [(5000, TriggerDanger)]))
       = birdCount (run initialState [(5000, TriggerDanger)]) - 1"
proof -
  have over: "status (run (resetGame initialState) sixteenLosses) = GAME_OVER"
    by (simp add: sixteenLosses_end)
  have zero: "birdCount (run (resetGame initialState) sixteenLosses) = 0"
    using game_invariants [of "resetGame initialState" initialState sixteenLosses]
      sixteenLosses_ops over by simp
  have won: "phase (run initialState [(0, IncrementScore 810)]) = HIGH_ALTITUDE
      \<and> score (run initialState (take 1 [(0, IncrementScore 810)])) > 300
      \<and> status (run initialState [(0, IncrementScore 810)]) = GAME_WON"
    by (simp add: initialState_def incrementScore_def Let_def)
  have ge: "score (run initialState [(0, IncrementScore 810)]) \<ge> 800"
    using game_invariants [of initialState initialState "[(0, IncrementScore 810)]"] won
    by simp
  have ne: "birdCount (dispatch 6000 (ResolveDanger False) (run initialState [(5000, TriggerDanger)]))
       \<noteq> birdCount (run initialState [(5000, TriggerDanger)])"
    by (simp add: initialState_def triggerDanger_def resolveDanger_def Let_def)
  have g: "gameOp (ResolveDanger False)" by simp
  have h1: "initialState = initialState \<or> initialState = resetGame initialState" by simp
  have h2: "\<forall>x \<in> set [(5000, TriggerDanger)]. gameOp (snd x)" by simp
  have step: "failedRescue (ResolveDanger False) (run initialState [(5000, TriggerDanger)])
     \<and> birdCount (dispatch 6000 (ResolveDanger False) (run initialState [(5000, TriggerDanger)]))
       = birdCount (run initialState [(5000, TriggerDanger)]) - 1"
    using game_invariants [OF h1 h2] g ne by blast
  from over zero won ge g ne step show ?thesis by blast
qed

section \<open>The collision test\<close>

lemma dir_unit: "(dirX l)\<^sup>2 + (dirY l)\<^sup>2 = 1"
proof -
  have "(dirBaseX l)\<^sup>2 = 1"
    by (simp add: dirBaseX_def)
  then have "(dirX l)\<^sup>2 + (dirY l)\<^sup>2 = (cos (laser_angle l))\<^sup>2 + (sin (laser_angle l))\<^sup>2"
    by (simp add: dirX_def dirY_def dirBaseY_def cosA_def sinA_def power_mult_distrib)
  then show ?thesis by simp
qed

text \<open>
  The squared distance from a point to the point at parameter \<open>u\<close> of a line with unit
  direction: the squared distance to the line plus the square of \<open>u\<close> minus the
  projection parameter.
\<close>

lemma point_on_line_distance:
  fixes dx dy a b u :: real
  assumes unit: "dx\<^sup>2 + dy\<^sup>2 = 1"
  shows "(a - u * dx)\<^sup>2 + (b - u * dy)\<^sup>2
           = a\<^sup>2 + b\<^sup>2 - (a * dx + b * dy)\<^sup>2 + (u - (a * dx + b * dy))\<^sup>2"
proof -
  have "(a - u * dx)\<^sup>2 + (b - u * dy)\<^sup>2
          = a\<^sup>2 + b\<^sup>2 - 2 * u * (a * dx + b * dy) + u\<^sup>2 * (dx\<^sup>2 + dy\<^sup>2)"
    by (simp add: power2_eq_square algebra_simps)
  also have "\<dots> = a\<^sup>2 + b\<^sup>2 - 2 * u * (a * dx + b * dy) + u\<^sup>2"
    by (simp add: unit)
  also have "\<dots> = a\<^sup>2 + b\<^sup>2 - (a * dx + b * dy)\<^sup>2 + (u - (a * dx + b * dy))\<^sup>2"
    by (simp add: power2_eq_square algebra_simps)
  finally show ?thesis .
qed

lemma clamp_nearest:
  fixes t u w :: real
  assumes "0 \<le> u" "u \<le> w"
  shows "(max 0 (min w t) - t)\<^sup>2 \<le> (u - t)\<^sup>2"
proof -
  have "\<bar>max 0 (min w t) - t\<bar> \<le> \<bar>u - t\<bar>"
    using assms by (auto simp add: max_def min_def abs_if)
  then show ?thesis
    by (simp only: abs_le_square_iff)
qed

lemma closest_clamp:
  assumes "0 \<le> laser_width l"
  shows "closestX cbx cby l = laser_x l + max 0 (min (laser_width l) (projT cbx cby l)) * dirX l"
    and "closestY cbx cby l = laser_y l + max 0 (min (laser_width l) (projT cbx cby l)) * dirY l"
  using assms by (auto simp add: closestX_def closestY_def Let_def max_def min_def)

lemma distSq_nearest:
  assumes w: "0 \<le> laser_width l" and u: "0 \<le> u" "u \<le> laser_width l"
  shows "distSq cbx cby l
           \<le> (cbx - (laser_x l + u * dirX l))\<^sup>2 + (cby - (laser_y l + u * dirY l))\<^sup>2"
proof -
  let ?a = "cbx - laser_x l" and ?b = "cby - laser_y l"
  let ?t = "projT cbx cby l"
  let ?c = "max 0 (min (laser_width l) ?t)"
  have t: "?t = ?a * dirX l + ?b * dirY l"
    by (simp add: projT_def)
  have "distSq cbx cby l = (?a - ?c * dirX l)\<^sup>2 + (?b - ?c * dirY l)\<^sup>2"
    by (simp add: distSq_def closest_clamp [OF w] algebra_simps)
  also have "\<dots> = ?a\<^sup>2 + ?b\<^sup>2 - ?t\<^sup>2 + (?c - ?t)\<^sup>2"
    unfolding t by (rule point_on_line_distance [OF dir_unit])
  also have "\<dots> \<le> ?a\<^sup>2 + ?b\<^sup>2 - ?t\<^sup>2 + (u - ?t)\<^sup>2"
    using clamp_nearest [OF u, of ?t] by simp
  also have "\<dots> = (?a - u * dirX l)\<^sup>2 + (?b - u * dirY l)\<^sup>2"
    unfolding t by (rule point_on_line_distance [OF dir_unit, symmetric])
  also have "\<dots> = (cbx - (laser_x l + u * dirX l))\<^sup>2 + (cby - (laser_y l + u * dirY l))\<^sup>2"
    by (simp add: algebra_simps)
  finally show ?thesis .
qed

text \<open>
  The loop over the whole list. The store it returns is the left fold of the loop body
  over the obstacles, the list it returns holds the advanced copies of the obstacles that
  are not retired, in order. A second trigger at the same clock reading changes nothing,
  so when no obstacle is retired the store is triggered once if some obstacle collides
  and is left alone otherwise.
\<close>

lemma updateLasers_fst:
  "fst (updateLasers delta now cbx cby fist ls s)
     = foldl (\<lambda>a k. let a1 = (if collides delta cbx cby fist k then triggerDanger now a else a)
                     in if laser_z k + 60 * delta > 20 then incrementScore 10 a1 else a1) s ls"
  by (induction ls arbitrary: s) (simp_all add: LASER_SPEED_def Let_def)

lemma updateLasers_snd:
  "snd (updateLasers delta now cbx cby fist ls s)
     = map (\<lambda>k. k\<lparr>laser_z := laser_z k + 60 * delta\<rparr>)
         (filter (\<lambda>k. \<not> laser_z k + 60 * delta > 20) ls)"
  by (induction ls arbitrary: s) (simp_all add: LASER_SPEED_def Let_def)

lemma triggerDanger_twice: "triggerDanger now (triggerDanger now s) = triggerDanger now s"
  by (simp add: triggerDanger_def)

lemma updateLasers_no_retire:
  assumes "\<forall>k \<in> set ls. laser_z k + 60 * delta \<le> 20"
  shows "fst (updateLasers delta now cbx cby fist ls s)
     = (if \<exists>k \<in> set ls. collides delta cbx cby fist k then triggerDanger now s else s)"
  using assms
proof (induction ls arbitrary: s)
  case Nil
  then show ?case by simp
next
  case (Cons l ls)
  then have keep: "\<not> laser_z l + 60 * delta > 20"
    and rest: "\<forall>k \<in> set ls. laser_z k + 60 * delta \<le> 20"
    by auto
  note IH = Cons.IH [OF rest]
  show ?case
    using keep by (simp add: IH LASER_SPEED_def Let_def triggerDanger_twice)
qed

lemma useFrame_playing:
  assumes "status (store w) = PLAYING"
  shows "store (useFrame delta time now r w)
      = fst (updateLasers delta now (birdX (store w) * 20) (birdY (store w) * 12 + 5)
               (isFist (store w))
               (lasers w @ (if time - lastSpawnTime w > nextSpawnInterval w
                            then [spawnLaser (phase (store w) = CORRIDOR) r] else []))
               (tickDangerTimer (delta * 1000) now (store w)))"
    and "lasers (useFrame delta time now r w)
      = snd (updateLasers delta now (birdX (store w) * 20) (birdY (store w) * 12 + 5)
               (isFist (store w))
               (lasers w @ (if time - lastSpawnTime w > nextSpawnInterval w
                            then [spawnLaser (phase (store w) = CORRIDOR) r] else []))
               (tickDangerTimer (delta * 1000) now (store w)))"
  using assms by (simp_all add: useFrame_def Let_def SCENE_WIDTH_def SCENE_HEIGHT_def)

text \<open>
  C1. The collision test of ObstacleManager, over the reals. The direction of an obstacle
  is the base vector (-1, 0) when side is 1 and (1, 0) otherwise, rotated by angle, and
  it is a unit vector. \<open>t\<close> is the projection of the flock position, relative to the
  obstacle's origin, on that direction. For a length that is not negative, the closest
  point is the origin plus the direction times \<open>t\<close> clamped to the interval from 0 to
  the length, and no point of the segment is nearer to the flock position. An obstacle
  is hit exactly when its new depth is within 3 of the flock plane and the squared
  distance from the flock position to the closest point is below the square of the sum
  of the obstacle's visual radius and the flock's collision radius; the loop calls
  triggerDanger for an obstacle it keeps exactly in that case. This holds of every
  obstacle of the list: the store after the loop is the fold of the loop body (trigger
  when the obstacle is hit, then 10 points when it is retired) over all obstacles in
  order, the new list holds every obstacle not retired, advanced, and when none is
  retired the store is triggered exactly when some obstacle of the list is hit. In a
  frame of a running game the list is that of the live obstacles, with the one spawned
  in the frame at its end, the flock position is (birdX * 20, birdY * 12 + 5), and the
  loop starts from the store left by the frame's tick. For an obstacle at (0, 0)
  with direction (1, 0), length 10, visual radius 0.8 and flock radius 1, within the
  depth band, a flock at (5, 0) is hit (squared distance 0) and a flock at (20, 0) is
  not (squared distance 100).
\<close>

theorem collision_test_exact:
  "dirX l = (if laser_side l = 1 then - 1 else 1) * cos (laser_angle l) - 0 * sin (laser_angle l)
   \<and> dirY l = (if laser_side l = 1 then - 1 else 1) * sin (laser_angle l) + 0 * cos (laser_angle l)
   \<and> (dirX l)\<^sup>2 + (dirY l)\<^sup>2 = 1
   \<and> projT cbx cby l = (cbx - laser_x l) * dirX l + (cby - laser_y l) * dirY l
   \<and> (0 \<le> laser_width l \<longrightarrow>
        closestX cbx cby l = laser_x l + max 0 (min (laser_width l) (projT cbx cby l)) * dirX l
        \<and> closestY cbx cby l = laser_y l + max 0 (min (laser_width l) (projT cbx cby l)) * dirY l
        \<and> (\<forall>u. 0 \<le> u \<and> u \<le> laser_width l \<longrightarrow>
              distSq cbx cby l
                \<le> (cbx - (laser_x l + u * dirX l))\<^sup>2 + (cby - (laser_y l + u * dirY l))\<^sup>2))
   \<and> distSq cbx cby l = (cbx - closestX cbx cby l)\<^sup>2 + (cby - closestY cbx cby l)\<^sup>2
   \<and> collides delta cbx cby fist l
       = (\<bar>laser_z l + 60 * delta\<bar> < 3
          \<and> distSq cbx cby l
              < ((if laser_type l = Pillar then 5 else 0.8) + (if fist then 1 else 4))\<^sup>2)
   \<and> (laser_z l + 60 * delta \<le> 20 \<longrightarrow>
        fst (updateLasers delta now cbx cby fist [l] s)
          = (if collides delta cbx cby fist l then triggerDanger now s else s))
   \<and> fst (updateLasers delta now cbx cby fist ls s)
       = foldl (\<lambda>a k. let a1 = (if collides delta cbx cby fist k then triggerDanger now a else a)
                       in if laser_z k + 60 * delta > 20 then incrementScore 10 a1 else a1) s ls
   \<and> snd (updateLasers delta now cbx cby fist ls s)
       = map (\<lambda>k. k\<lparr>laser_z := laser_z k + 60 * delta\<rparr>)
           (filter (\<lambda>k. \<not> laser_z k + 60 * delta > 20) ls)
   \<and> ((\<forall>k \<in> set ls. laser_z k + 60 * delta \<le> 20) \<longrightarrow>
        fst (updateLasers delta now cbx cby fist ls s)
          = (if \<exists>k \<in> set ls. collides delta cbx cby fist k then triggerDanger now s else s))
   \<and> (status (store w) = PLAYING \<longrightarrow>
        store (useFrame delta time now r w)
          = fst (updateLasers delta now (birdX (store w) * 20) (birdY (store w) * 12 + 5)
                   (isFist (store w))
                   (lasers w @ (if time - lastSpawnTime w > nextSpawnInterval w
                                then [spawnLaser (phase (store w) = CORRIDOR) r] else []))
                   (tickDangerTimer (delta * 1000) now (store w)))
        \<and> lasers (useFrame delta time now r w)
          = snd (updateLasers delta now (birdX (store w) * 20) (birdY (store w) * 12 + 5)
                   (isFist (store w))
                   (lasers w @ (if time - lastSpawnTime w > nextSpawnInterval w
                                then [spawnLaser (phase (store w) = CORRIDOR) r] else []))
                   (tickDangerTimer (delta * 1000) now (store w))))
   \<and> (laser_x l = 0 \<and> laser_y l = 0 \<and> dirX l = 1 \<and> dirY l = 0 \<and> laser_width l = 10
        \<and> laser_type l = Beam \<and> \<bar>laser_z l + 60 * delta\<bar> < 3 \<longrightarrow>
        distSq 5 0 l = 0 \<and> collides delta 5 0 True l
        \<and> distSq 20 0 l = 100 \<and> \<not> collides delta 20 0 True l)"
proof -
  have d: "dirX l = (if laser_side l = 1 then - 1 else 1) * cos (laser_angle l) - 0 * sin (laser_angle l)"
    "dirY l = (if laser_side l = 1 then - 1 else 1) * sin (laser_angle l) + 0 * cos (laser_angle l)"
    by (simp_all add: dirX_def dirY_def dirBaseX_def dirBaseY_def cosA_def sinA_def)
  have t: "projT cbx cby l = (cbx - laser_x l) * dirX l + (cby - laser_y l) * dirY l"
    by (simp add: projT_def)
  have c: "0 \<le> laser_width l \<longrightarrow>
        closestX cbx cby l = laser_x l + max 0 (min (laser_width l) (projT cbx cby l)) * dirX l
        \<and> closestY cbx cby l = laser_y l + max 0 (min (laser_width l) (projT cbx cby l)) * dirY l
        \<and> (\<forall>u. 0 \<le> u \<and> u \<le> laser_width l \<longrightarrow>
              distSq cbx cby l
                \<le> (cbx - (laser_x l + u * dirX l))\<^sup>2 + (cby - (laser_y l + u * dirY l))\<^sup>2)"
    using closest_clamp distSq_nearest by blast
  have q: "distSq cbx cby l = (cbx - closestX cbx cby l)\<^sup>2 + (cby - closestY cbx cby l)\<^sup>2"
    by (simp add: distSq_def)
  have h: "collides delta cbx cby fist l
       = (\<bar>laser_z l + 60 * delta\<bar> < 3
          \<and> distSq cbx cby l
              < ((if laser_type l = Pillar then 5 else 0.8) + (if fist then 1 else 4))\<^sup>2)"
    by (simp add: collides_def hitTest_def threshold_def visualRadius_def flockRadius_def
        LASER_SPEED_def Let_def power2_eq_square)
  have r: "laser_z l + 60 * delta \<le> 20 \<longrightarrow>
        fst (updateLasers delta now cbx cby fist [l] s)
          = (if collides delta cbx cby fist l then triggerDanger now s else s)"
    by (simp add: LASER_SPEED_def Let_def)
  have e: "laser_x l = 0 \<and> laser_y l = 0 \<and> dirX l = 1 \<and> dirY l = 0 \<and> laser_width l = 10
        \<and> laser_type l = Beam \<and> \<bar>laser_z l + 60 * delta\<bar> < 3 \<longrightarrow>
        distSq 5 0 l = 0 \<and> collides delta 5 0 True l
        \<and> distSq 20 0 l = 100 \<and> \<not> collides delta 20 0 True l"
  proof
    assume a: "laser_x l = 0 \<and> laser_y l = 0 \<and> dirX l = 1 \<and> dirY l = 0 \<and> laser_width l = 10
        \<and> laser_type l = Beam \<and> \<bar>laser_z l + 60 * delta\<bar> < 3"
    then have near: "distSq 5 0 l = 0" and far: "distSq 20 0 l = 100"
      by (simp_all add: distSq_def closestX_def closestY_def projT_def Let_def)
    from a near far show "distSq 5 0 l = 0 \<and> collides delta 5 0 True l
        \<and> distSq 20 0 l = 100 \<and> \<not> collides delta 20 0 True l"
      by (simp add: collides_def hitTest_def threshold_def visualRadius_def flockRadius_def
          LASER_SPEED_def Let_def)
  qed
  have n: "(\<forall>k \<in> set ls. laser_z k + 60 * delta \<le> 20) \<longrightarrow>
        fst (updateLasers delta now cbx cby fist ls s)
          = (if \<exists>k \<in> set ls. collides delta cbx cby fist k then triggerDanger now s else s)"
    using updateLasers_no_retire by blast
  have f: "status (store w) = PLAYING \<longrightarrow>
        store (useFrame delta time now r w)
          = fst (updateLasers delta now (birdX (store w) * 20) (birdY (store w) * 12 + 5)
                   (isFist (store w))
                   (lasers w @ (if time - lastSpawnTime w > nextSpawnInterval w
                                then [spawnLaser (phase (store w) = CORRIDOR) r] else []))
                   (tickDangerTimer (delta * 1000) now (store w)))
        \<and> lasers (useFrame delta time now r w)
          = snd (updateLasers delta now (birdX (store w) * 20) (birdY (store w) * 12 + 5)
                   (isFist (store w))
                   (lasers w @ (if time - lastSpawnTime w > nextSpawnInterval w
                                then [spawnLaser (phase (store w) = CORRIDOR) r] else []))
                   (tickDangerTimer (delta * 1000) now (store w)))"
    using useFrame_playing by blast
  show ?thesis
    by (intro conjI)
      (rule d dir_unit t c q h r updateLasers_fst updateLasers_snd n f e)+
qed

theorem collision_test_exact_witness:
  "0 \<le> laser_width \<lparr>laser_id = 1, laser_z = - 1, laser_x = 0, laser_y = 0, laser_width = 10,
        laser_side = - 1, laser_angle = 0, laser_type = Beam\<rparr>
   \<and> closestX 20 0 \<lparr>laser_id = 1, laser_z = - 1, laser_x = 0, laser_y = 0, laser_width = 10,
        laser_side = - 1, laser_angle = 0, laser_type = Beam\<rparr> = 10
   \<and> (0::real) \<le> 3 \<and> 3 \<le> laser_width \<lparr>laser_id = 1, laser_z = - 1, laser_x = 0,
        laser_y = 0, laser_width = 10, laser_side = - 1, laser_angle = 0, laser_type = Beam\<rparr>
   \<and> distSq 20 0 \<lparr>laser_id = 1, laser_z = - 1, laser_x = 0, laser_y = 0, laser_width = 10,
        laser_side = - 1, laser_angle = 0, laser_type = Beam\<rparr> \<le> (20 - (0 + 3 * 1))\<^sup>2 + (0 - (0 + 3 * 0))\<^sup>2
   \<and> dirX \<lparr>laser_id = 1, laser_z = - 1, laser_x = 0, laser_y = 0, laser_width = 10,
        laser_side = - 1, laser_angle = 0, laser_type = Beam\<rparr> = 1
   \<and> dirY \<lparr>laser_id = 1, laser_z = - 1, laser_x = 0, laser_y = 0, laser_width = 10,
        laser_side = - 1, laser_angle = 0, laser_type = Beam\<rparr> = 0
   \<and> \<bar>- 1 + 60 * (0::real)\<bar> < 3
   \<and> collides 0 5 0 True \<lparr>laser_id = 1, laser_z = - 1, laser_x = 0, laser_y = 0,
        laser_width = 10, laser_side = - 1, laser_angle = 0, laser_type = Beam\<rparr>
   \<and> \<not> collides 0 20 0 True \<lparr>laser_id = 1, laser_z = - 1, laser_x = 0, laser_y = 0,
        laser_width = 10, laser_side = - 1, laser_angle = 0, laser_type = Beam\<rparr>
   \<and> fst (updateLasers 0 7000 5 0 True [\<lparr>laser_id = 1, laser_z = - 1, laser_x = 0, laser_y = 0,
        laser_width = 10, laser_side = - 1, laser_angle = 0, laser_type = Beam\<rparr>] initialState)
       = triggerDanger 7000 initialState
   \<and> - 100 + 60 * (0::real) \<le> 20 \<and> - 1 + 60 * (0::real) \<le> 20
   \<and> fst (updateLasers 0 7000 5 0 True
        [\<lparr>laser_id = 2, laser_z = - 100, laser_x = 0, laser_y = 0, laser_width = 10,
          laser_side = - 1, laser_angle = 0, laser_type = Beam\<rparr>,
         \<lparr>laser_id = 1, laser_z = - 1, laser_x = 0, laser_y = 0, laser_width = 10,
          laser_side = - 1, laser_angle = 0, laser_type = Beam\<rparr>] initialState)
       = triggerDanger 7000 initialState
   \<and> fst (updateLasers 0 7000 20 0 True
        [\<lparr>laser_id = 2, laser_z = - 100, laser_x = 0, laser_y = 0, laser_width = 10,
          laser_side = - 1, laser_angle = 0, laser_type = Beam\<rparr>,
         \<lparr>laser_id = 1, laser_z = - 1, laser_x = 0, laser_y = 0, laser_width = 10,
          laser_side = - 1, laser_angle = 0, laser_type = Beam\<rparr>] initialState)
       = initialState
   \<and> status (store \<lparr>store = initialState\<lparr>status := PLAYING, birdX := 1 / 4,
                         birdY := - 5 / 12, isFist := True\<rparr>,
           lasers = [\<lparr>laser_id = 2, laser_z = - 100, laser_x = 0, laser_y = 0, laser_width = 10,
                       laser_side = - 1, laser_angle = 0, laser_type = Beam\<rparr>,
                     \<lparr>laser_id = 1, laser_z = - 1, laser_x = 0, laser_y = 0, laser_width = 10,
                       laser_side = - 1, laser_angle = 0, laser_type = Beam\<rparr>],
           lastSpawnTime = 0, nextSpawnInterval = 1000\<rparr>) = PLAYING
   \<and> store (useFrame 0 500 7000
        \<lparr>rndInterval = 1 / 2, rndOriginX = 1 / 2, rndSpawnY = 1 / 2, rndSide = 1 / 4,
          rndAngle = 1 / 4, rndLength = 1 / 2, rndId = 1 / 8\<rparr>
        \<lparr>store = initialState\<lparr>status := PLAYING, birdX := 1 / 4,
                         birdY := - 5 / 12, isFist := True\<rparr>,
           lasers = [\<lparr>laser_id = 2, laser_z = - 100, laser_x = 0, laser_y = 0, laser_width = 10,
                       laser_side = - 1, laser_angle = 0, laser_type = Beam\<rparr>,
                     \<lparr>laser_id = 1, laser_z = - 1, laser_x = 0, laser_y = 0, laser_width = 10,
                       laser_side = - 1, laser_angle = 0, laser_type = Beam\<rparr>],
           lastSpawnTime = 0, nextSpawnInterval = 1000\<rparr>)
       = triggerDanger 7000 (initialState\<lparr>status := PLAYING, birdX := 1 / 4,
                         birdY := - 5 / 12, isFist := True\<rparr>)"
proof -
  let ?l = "\<lparr>laser_id = 1, laser_z = - 1, laser_x = 0, laser_y = 0, laser_width = 10,
        laser_side = - 1, laser_angle = 0, laser_type = Beam\<rparr>"
  let ?k = "\<lparr>laser_id = 2, laser_z = - 100, laser_x = 0, laser_y = 0, laser_width = 10,
        laser_side = - 1, laser_angle = 0, laser_type = Beam\<rparr>"
  let ?g = "initialState\<lparr>status := PLAYING, birdX := 1 / 4, birdY := - 5 / 12, isFist := True\<rparr>"
  let ?w = "\<lparr>store = ?g, lasers = [?k, ?l], lastSpawnTime = 0, nextSpawnInterval = 1000\<rparr>"
  let ?r = "\<lparr>rndInterval = 1 / 2, rndOriginX = 1 / 2, rndSpawnY = 1 / 2, rndSide = 1 / 4,
          rndAngle = 1 / 4, rndLength = 1 / 2, rndId = 1 / 8\<rparr>"
  have w: "0 \<le> laser_width ?l" by simp
  have dir: "dirX ?l = 1" "dirY ?l = 0"
    by (simp_all add: dirX_def dirY_def dirBaseX_def dirBaseY_def cosA_def sinA_def)
  have keep: "laser_z ?l + 60 * 0 \<le> (20::real)" by simp
  have keeps: "\<forall>k \<in> set [?k, ?l]. laser_z k + 60 * 0 \<le> 20" by simp
  have play: "status (store ?w) = PLAYING" by simp
  have pre: "laser_x ?l = 0 \<and> laser_y ?l = 0 \<and> dirX ?l = 1 \<and> dirY ?l = 0 \<and> laser_width ?l = 10
        \<and> laser_type ?l = Beam \<and> \<bar>laser_z ?l + 60 * 0\<bar> < 3"
    using dir by simp
  note far = collision_test_exact [where l = ?l and cbx = 20 and cby = 0 and delta = 0
      and fist = True and now = 7000 and s = initialState and ls = "[?k, ?l]" and w = ?w
      and time = 500 and r = ?r]
  note near = collision_test_exact [where l = ?l and cbx = 5 and cby = 0 and delta = 0
      and fist = True and now = 7000 and s = initialState and ls = "[?k, ?l]" and w = ?w
      and time = 500 and r = ?r]
  note away = collision_test_exact [where l = ?k and cbx = 5 and cby = 0 and delta = 0
      and fist = True and now = 7000 and s = initialState and ls = "[?k, ?l]" and w = ?w
      and time = 500 and r = ?r]
  from far w have "closestX 20 0 ?l = laser_x ?l + max 0 (min (laser_width ?l) (projT 20 0 ?l)) * dirX ?l"
    by blast
  then have cx: "closestX 20 0 ?l = 10"
    by (simp add: projT_def dir)
  have u: "(0::real) \<le> 3 \<and> 3 \<le> laser_width ?l" by simp
  from far w u have "distSq 20 0 ?l
      \<le> (20 - (laser_x ?l + 3 * dirX ?l))\<^sup>2 + (0 - (laser_y ?l + 3 * dirY ?l))\<^sup>2"
    by blast
  then have ds: "distSq 20 0 ?l \<le> (20 - (0 + 3 * 1))\<^sup>2 + (0 - (0 + 3 * 0))\<^sup>2"
    by (simp add: dir)
  from far pre have hit: "collides 0 5 0 True ?l" and miss: "\<not> collides 0 20 0 True ?l"
    by blast+
  from near keep hit have one: "fst (updateLasers 0 7000 5 0 True [?l] initialState)
      = triggerDanger 7000 initialState"
    by simp
  from away have "collides 0 5 0 True ?k = (\<bar>laser_z ?k + 60 * 0\<bar> < 3
          \<and> distSq 5 0 ?k < ((if laser_type ?k = Pillar then 5 else 0.8) + (if True then 1 else 4))\<^sup>2)"
    by blast
  then have out: "\<not> collides 0 5 0 True ?k" by simp
  have out': "\<not> collides 0 20 0 True ?k"
    by (simp add: collides_def LASER_SPEED_def)
  from near keeps have "fst (updateLasers 0 7000 5 0 True [?k, ?l] initialState)
      = (if \<exists>k \<in> set [?k, ?l]. collides 0 5 0 True k then triggerDanger 7000 initialState
         else initialState)"
    by blast
  with hit have two: "fst (updateLasers 0 7000 5 0 True [?k, ?l] initialState)
      = triggerDanger 7000 initialState"
    by simp
  from far keeps have "fst (updateLasers 0 7000 20 0 True [?k, ?l] initialState)
      = (if \<exists>k \<in> set [?k, ?l]. collides 0 20 0 True k then triggerDanger 7000 initialState
         else initialState)"
    by blast
  with miss out' have none: "fst (updateLasers 0 7000 20 0 True [?k, ?l] initialState)
      = initialState"
    by simp
  from near play have "store (useFrame 0 500 7000 ?r ?w)
          = fst (updateLasers 0 7000 (birdX (store ?w) * 20) (birdY (store ?w) * 12 + 5)
                   (isFist (store ?w))
                   (lasers ?w @ (if 500 - lastSpawnTime ?w > nextSpawnInterval ?w
                                then [spawnLaser (phase (store ?w) = CORRIDOR) ?r] else []))
                   (tickDangerTimer (0 * 1000) 7000 (store ?w)))"
    by blast
  then have "store (useFrame 0 500 7000 ?r ?w)
          = fst (updateLasers 0 7000 5 0 True [?k, ?l] ?g)"
    by (simp add: initialState_def tickDangerTimer_def)
  also have "\<dots> = (if \<exists>k \<in> set [?k, ?l]. collides 0 5 0 True k then triggerDanger 7000 ?g else ?g)"
    using collision_test_exact [where delta = 0 and now = 7000 and cbx = 5 and cby = 0
        and fist = True and ls = "[?k, ?l]" and s = ?g and l = ?l and w = ?w and time = 500
        and r = ?r] keeps
    by blast
  also have "\<dots> = triggerDanger 7000 ?g"
    using hit by simp
  finally have frame: "store (useFrame 0 500 7000 ?r ?w) = triggerDanger 7000 ?g" .
  from w cx ds dir hit miss one two none frame show ?thesis by simp
qed

section \<open>Reset and the end of a game\<close>

text \<open>
  C6 (as stated: after a reset the set of live obstacles is empty). It fails in the
  game that has been started and has run one frame that spawned an obstacle: the restart
  button resets the store, and the obstacle is still in the list.
\<close>

theorem restart_clears_lasers_counterexample:
  "lasers (restartClick
      (useFrame (16 / 1000) 1016 1016
         \<lparr>rndInterval = 1 / 2, rndOriginX = 1 / 2, rndSpawnY = 1 / 2, rndSide = 1 / 4,
           rndAngle = 1 / 4, rndLength = 1 / 2, rndId = 1 / 8\<rparr>
         (startClick initialWorld))) \<noteq> []"
  by (simp add: restartClick_def useFrame_def startClick_def initialWorld_def initialState_def
      setStatus_def tickDangerTimer_def spawnLaser_def collides_def LASER_SPEED_def Let_def)

text \<open>
  C6 (amended). For every prior state, resetGame yields status PLAYING, phase CORRIDOR,
  score 0, birdCount 16, dangerStatus SAFE and dangerTimer 0 (and birdX, birdY and
  lastHitTime 0, the three input flags unchanged); the restart button does this to the
  store and leaves the list of live obstacles and the spawn timers as they were.
\<close>

theorem restart_resets_store_only:
  "status (resetGame s) = PLAYING
   \<and> phase (resetGame s) = CORRIDOR
   \<and> score (resetGame s) = 0
   \<and> birdCount (resetGame s) = 16
   \<and> dangerStatus (resetGame s) = SAFE
   \<and> dangerTimer (resetGame s) = 0
   \<and> birdX (resetGame s) = 0
   \<and> birdY (resetGame s) = 0
   \<and> lastHitTime (resetGame s) = 0
   \<and> cameraPermissionGranted (resetGame s) = cameraPermissionGranted s
   \<and> handDetected (resetGame s) = handDetected s
   \<and> isFist (resetGame s) = isFist s
   \<and> store (restartClick w) = resetGame (store w)
   \<and> lasers (restartClick w) = lasers w
   \<and> lastSpawnTime (restartClick w) = lastSpawnTime w
   \<and> nextSpawnInterval (restartClick w) = nextSpawnInterval w"
  by (simp add: resetGame_def restartClick_def)

lemma useFrame_not_playing: "status (store w) \<noteq> PLAYING \<Longrightarrow> useFrame delta time now r w = w"
  by (simp add: useFrame_def)

lemma frames_not_playing: "status (store w) \<noteq> PLAYING \<Longrightarrow> frames w fs = w"
proof (induction fs)
  case Nil
  then show ?case by simp
next
  case (Cons f fs)
  obtain delta time now r where f: "f = (delta, time, now, r)"
    by (cases f) auto
  from Cons show ?case
    by (simp add: f useFrame_not_playing)
qed

text \<open>
  C7 (as stated: once birdCount is 0 and status is GAME_OVER, every later trigger and tick
  returns the state unchanged). It fails in the state reached from a reset by sixteen
  timer expiries, the last at 83000: the status is GAME_OVER and birdCount is 0, yet a
  trigger at 90000 starts a warning, and the tick after it changes the timer.
\<close>

theorem game_over_trigger_counterexample:
  "status (run (resetGame initialState) sixteenLosses) = GAME_OVER
   \<and> birdCount (run (resetGame initialState) sixteenLosses) = 0
   \<and> triggerDanger 90000 (run (resetGame initialState) sixteenLosses)
       \<noteq> run (resetGame initialState) sixteenLosses
   \<and> tickDangerTimer 16 90016 (triggerDanger 90000 (run (resetGame initialState) sixteenLosses))
       \<noteq> triggerDanger 90000 (run (resetGame initialState) sixteenLosses)"
proof -
  have a: "triggerDanger 90000
       (initialState\<lparr>status := GAME_OVER, birdCount := 0, lastHitTime := 83000\<rparr>)
     = initialState\<lparr>status := GAME_OVER, birdCount := 0, lastHitTime := 90000,
         dangerStatus := WARNING, dangerTimer := 3000\<rparr>"
    by (simp add: triggerDanger_def initialState_def)
  have b: "dangerStatus (triggerDanger 90000 (run (resetGame initialState) sixteenLosses))
      \<noteq> dangerStatus (run (resetGame initialState) sixteenLosses)"
    unfolding sixteenLosses_end a by (simp add: initialState_def)
  have c: "dangerTimer (tickDangerTimer 16 90016
         (triggerDanger 90000 (run (resetGame initialState) sixteenLosses)))
      \<noteq> dangerTimer (triggerDanger 90000 (run (resetGame initialState) sixteenLosses))"
    unfolding sixteenLosses_end a by (simp add: initialState_def tickDangerTimer_def Let_def)
  have d: "status (run (resetGame initialState) sixteenLosses) = GAME_OVER
      \<and> birdCount (run (resetGame initialState) sixteenLosses) = 0"
    by (simp add: sixteenLosses_end)
  from b c d show ?thesis by metis
qed

text \<open>
  The rest of the frame in which the last bird is lost. Once birdCount is 0, the warning
  is over and lastHitTime is the clock reading of the frame, a trigger in the loop
  changes nothing (the cooldown has just started), and a score increment changes the
  status only to GAME_WON, when the score reaches 800.
\<close>

lemma updateLasers_after_loss:
  assumes "dangerStatus s = SAFE" and "lastHitTime s = now" and "birdCount s = 0"
    and "status s = GAME_OVER \<or> (status s = GAME_WON \<and> 800 \<le> score s)"
  shows "dangerStatus (fst (updateLasers delta now cbx cby fist ls s)) = SAFE
    \<and> lastHitTime (fst (updateLasers delta now cbx cby fist ls s)) = now
    \<and> birdCount (fst (updateLasers delta now cbx cby fist ls s)) = 0
    \<and> (status (fst (updateLasers delta now cbx cby fist ls s)) = GAME_OVER
        \<or> (status (fst (updateLasers delta now cbx cby fist ls s)) = GAME_WON
            \<and> 800 \<le> score (fst (updateLasers delta now cbx cby fist ls s))))
    \<and> (score (fst (updateLasers delta now cbx cby fist ls s)) < 800 \<longrightarrow>
          status (fst (updateLasers delta now cbx cby fist ls s)) = GAME_OVER)"
  using assms
proof (induction ls arbitrary: s)
  case Nil
  then show ?case by auto
next
  case (Cons l ls)
  let ?s1 = "if collides delta cbx cby fist l then triggerDanger now s else s"
  let ?s2 = "if laser_z l + LASER_SPEED * delta > 20 then incrementScore 10 ?s1 else ?s1"
  have s1: "?s1 = s"
    using Cons.prems(2) by (simp add: triggerDanger_def)
  have a: "dangerStatus ?s2 = SAFE" "lastHitTime ?s2 = now" "birdCount ?s2 = 0"
    unfolding s1 using Cons.prems by (simp_all add: incrementScore_def Let_def)
  have b: "status ?s2 = GAME_OVER \<or> (status ?s2 = GAME_WON \<and> 800 \<le> score ?s2)"
    unfolding s1 using Cons.prems(4) by (auto simp add: incrementScore_def Let_def)
  have "fst (updateLasers delta now cbx cby fist (l # ls) s)
      = fst (updateLasers delta now cbx cby fist ls ?s2)"
    by (simp add: Let_def)
  then show ?case
    using Cons.IH [OF a b] by simp
qed

lemma useFrame_last_loss:
  assumes play: "status (store w) = PLAYING"
    and warn: "dangerStatus (store w) = WARNING"
    and expire: "dangerTimer (store w) - delta * 1000 \<le> 0"
    and last: "birdCount (store w) \<le> 1"
  shows "birdCount (store (useFrame delta time now r w)) = 0
    \<and> dangerStatus (store (useFrame delta time now r w)) = SAFE
    \<and> lastHitTime (store (useFrame delta time now r w)) = now
    \<and> (status (store (useFrame delta time now r w)) = GAME_OVER
        \<or> (status (store (useFrame delta time now r w)) = GAME_WON
            \<and> 800 \<le> score (store (useFrame delta time now r w))))
    \<and> (score (store (useFrame delta time now r w)) < 800 \<longrightarrow>
          status (store (useFrame delta time now r w)) = GAME_OVER)"
proof -
  let ?g = "tickDangerTimer (delta * 1000) now (store w)"
  have g: "dangerStatus ?g = SAFE" "lastHitTime ?g = now" "birdCount ?g = 0"
    "status ?g = GAME_OVER \<or> (status ?g = GAME_WON \<and> 800 \<le> score ?g)"
    using warn expire last by (simp_all add: tickDangerTimer_def Let_def)
  note after = updateLasers_after_loss [OF g]
  have "store (useFrame delta time now r w)
      = fst (updateLasers delta now (birdX (store w) * SCENE_WIDTH)
               (birdY (store w) * SCENE_HEIGHT + 5) (isFist (store w))
               (lasers w @ (if time - lastSpawnTime w > nextSpawnInterval w
                            then [spawnLaser (phase (store w) = CORRIDOR) r] else []))
               ?g)"
    using play by (simp add: useFrame_def Let_def)
  then show ?thesis
    using after by simp
qed

text \<open>
  The frame in which the last bird is lost can end with status GAME_WON: here the timer
  runs out at a score of 790 and an obstacle retired later in the same frame brings the
  score to 800.
\<close>

lemma last_loss_frame_may_end_won:
  "status (store (useFrame (16 / 1000) 500 90000
      \<lparr>rndInterval = 1 / 2, rndOriginX = 1 / 2, rndSpawnY = 1 / 2, rndSide = 1 / 4,
        rndAngle = 1 / 4, rndLength = 1 / 2, rndId = 1 / 8\<rparr>
      \<lparr>store = initialState\<lparr>status := PLAYING, dangerStatus := WARNING,
                 phase := HIGH_ALTITUDE, score := 790, birdCount := 1, dangerTimer := 10,
                 lastHitTime := 87000\<rparr>,
        lasers = [\<lparr>laser_id = 1, laser_z = 39 / 2, laser_x = 30, laser_y = - 50,
                    laser_width = 120, laser_side = - 1, laser_angle = pi / 2,
                    laser_type = Pillar\<rparr>],
        lastSpawnTime = 0, nextSpawnInterval = 1000\<rparr>)) = GAME_WON"
  by (simp add: useFrame_def initialState_def tickDangerTimer_def incrementScore_def
      collides_def LASER_SPEED_def Let_def)

text \<open>
  C7 (amended). Let birdCount reach 0 by a failed manual resolve or by a timer expiry at
  clock reading \<open>now\<close>. Then that operation leaves status GAME_OVER and dangerStatus
  SAFE. In the state it leaves, every tick returns the state unchanged; a trigger returns
  it unchanged while fewer than 2000 ms have passed since \<open>now\<close>; and every run of
  frames of the game loop, which calls tick and trigger only while status is PLAYING,
  leaves the store, the obstacles and the spawn timers unchanged, whatever the frame times
  and clock readings, until resetGame makes status PLAYING again. In the game loop the
  timer expires inside a frame, and the loop over the obstacles goes on after it: the
  frame of a running game whose tick takes the last bird ends with birdCount 0,
  dangerStatus SAFE and status GAME_OVER, or GAME_WON with a score of at least 800
  (GAME_OVER whenever the score is still below 800); every tick on the store it leaves
  and every run of frames after it leaves everything unchanged, until resetGame makes
  status PLAYING again.
\<close>

theorem game_over_is_final:
  "(dangerStatus s = WARNING
      \<and> (g = resolveDanger False now s
          \<or> (g = tickDangerTimer deltaMs now s \<and> dangerTimer s - deltaMs \<le> 0))
      \<and> birdCount g = 0 \<longrightarrow>
        status g = GAME_OVER
        \<and> dangerStatus g = SAFE
        \<and> (\<forall>d n. tickDangerTimer d n g = g)
        \<and> (\<forall>n. n - now < 2000 \<longrightarrow> triggerDanger n g = g)
        \<and> (\<forall>v fs. store v = g \<longrightarrow> frames v fs = v)
        \<and> status (resetGame g) = PLAYING)
   \<and> (status (store w) = PLAYING \<and> dangerStatus (store w) = WARNING
      \<and> dangerTimer (store w) - delta * 1000 \<le> 0 \<and> birdCount (store w) \<le> 1 \<longrightarrow>
        birdCount (store (useFrame delta time now r w)) = 0
        \<and> dangerStatus (store (useFrame delta time now r w)) = SAFE
        \<and> (status (store (useFrame delta time now r w)) = GAME_OVER
            \<or> (status (store (useFrame delta time now r w)) = GAME_WON
                \<and> 800 \<le> score (store (useFrame delta time now r w))))
        \<and> (score (store (useFrame delta time now r w)) < 800 \<longrightarrow>
              status (store (useFrame delta time now r w)) = GAME_OVER)
        \<and> (\<forall>d n. tickDangerTimer d n (store (useFrame delta time now r w))
                    = store (useFrame delta time now r w))
        \<and> (\<forall>n. n - now < 2000 \<longrightarrow>
              triggerDanger n (store (useFrame delta time now r w))
                = store (useFrame delta time now r w))
        \<and> (\<forall>fs. frames (useFrame delta time now r w) fs = useFrame delta time now r w)
        \<and> status (resetGame (store (useFrame delta time now r w))) = PLAYING)"
proof (rule conjI; rule impI)
  assume a: "dangerStatus s = WARNING
      \<and> (g = resolveDanger False now s
          \<or> (g = tickDangerTimer deltaMs now s \<and> dangerTimer s - deltaMs \<le> 0))
      \<and> birdCount g = 0"
  then have warn: "dangerStatus s = WARNING" and zero: "birdCount g = 0"
    and fail: "g = resolveDanger False now s
          \<or> (g = tickDangerTimer deltaMs now s \<and> dangerTimer s - deltaMs \<le> 0)"
    by simp_all
  from fail have g: "status g = GAME_OVER \<and> dangerStatus g = SAFE \<and> lastHitTime g = now"
  proof
    assume "g = resolveDanger False now s"
    with warn zero show ?thesis
      by (auto simp add: resolveDanger_def Let_def split: if_splits)
  next
    assume "g = tickDangerTimer deltaMs now s \<and> dangerTimer s - deltaMs \<le> 0"
    with warn zero show ?thesis
      by (auto simp add: tickDangerTimer_def Let_def split: if_splits)
  qed
  have t: "\<forall>d n. tickDangerTimer d n g = g"
    using g by (simp add: tickDangerTimer_def)
  have c: "\<forall>n. n - now < 2000 \<longrightarrow> triggerDanger n g = g"
    using g by (simp add: triggerDanger_def)
  have f: "\<forall>v fs. store v = g \<longrightarrow> frames v fs = v"
    using g by (simp add: frames_not_playing)
  have r: "status (resetGame g) = PLAYING"
    by (simp add: resetGame_def)
  from g t c f r show "status g = GAME_OVER
        \<and> dangerStatus g = SAFE
        \<and> (\<forall>d n. tickDangerTimer d n g = g)
        \<and> (\<forall>n. n - now < 2000 \<longrightarrow> triggerDanger n g = g)
        \<and> (\<forall>v fs. store v = g \<longrightarrow> frames v fs = v)
        \<and> status (resetGame g) = PLAYING"
    by blast
next
  let ?e = "store (useFrame delta time now r w)"
  assume "status (store w) = PLAYING \<and> dangerStatus (store w) = WARNING
      \<and> dangerTimer (store w) - delta * 1000 \<le> 0 \<and> birdCount (store w) \<le> 1"
  then have e: "birdCount ?e = 0 \<and> dangerStatus ?e = SAFE \<and> lastHitTime ?e = now
      \<and> (status ?e = GAME_OVER \<or> (status ?e = GAME_WON \<and> 800 \<le> score ?e))
      \<and> (score ?e < 800 \<longrightarrow> status ?e = GAME_OVER)"
    using useFrame_last_loss by blast
  then have np: "status ?e \<noteq> PLAYING" by auto
  have t: "\<forall>d n. tickDangerTimer d n ?e = ?e"
    using e by (simp add: tickDangerTimer_def)
  have c: "\<forall>n. n - now < 2000 \<longrightarrow> triggerDanger n ?e = ?e"
    using e by (simp add: triggerDanger_def)
  have f: "\<forall>fs. frames (useFrame delta time now r w) fs = useFrame delta time now r w"
    using np by (simp add: frames_not_playing)
  have r: "status (resetGame ?e) = PLAYING"
    by (simp add: resetGame_def)
  from e t c f r show "birdCount ?e = 0
        \<and> dangerStatus ?e = SAFE
        \<and> (status ?e = GAME_OVER \<or> (status ?e = GAME_WON \<and> 800 \<le> score ?e))
        \<and> (score ?e < 800 \<longrightarrow> status ?e = GAME_OVER)
        \<and> (\<forall>d n. tickDangerTimer d n ?e = ?e)
        \<and> (\<forall>n. n - now < 2000 \<longrightarrow> triggerDanger n ?e = ?e)
        \<and> (\<forall>fs. frames (useFrame delta time now r w) fs = useFrame delta time now r w)
        \<and> status (resetGame ?e) = PLAYING"
    by blast
qed

theorem game_over_is_final_witness:
  "dangerStatus (initialState\<lparr>status := PLAYING, dangerStatus := WARNING, birdCount := 1,
       dangerTimer := 3000, lastHitTime := 80000\<rparr>) = WARNING
   \<and> birdCount (resolveDanger False 81000
       (initialState\<lparr>status := PLAYING, dangerStatus := WARNING, birdCount := 1,
          dangerTimer := 3000, lastHitTime := 80000\<rparr>)) = 0
   \<and> status (resolveDanger False 81000
       (initialState\<lparr>status := PLAYING, dangerStatus := WARNING, birdCount := 1,
          dangerTimer := 3000, lastHitTime := 80000\<rparr>)) = GAME_OVER
   \<and> 82000 - (81000::real) < 2000
   \<and> triggerDanger 82000 (resolveDanger False 81000
       (initialState\<lparr>status := PLAYING, dangerStatus := WARNING, birdCount := 1,
          dangerTimer := 3000, lastHitTime := 80000\<rparr>))
      = resolveDanger False 81000
       (initialState\<lparr>status := PLAYING, dangerStatus := WARNING, birdCount := 1,
          dangerTimer := 3000, lastHitTime := 80000\<rparr>)
   \<and> frames (initialWorld\<lparr>store := resolveDanger False 81000
       (initialState\<lparr>status := PLAYING, dangerStatus := WARNING, birdCount := 1,
          dangerTimer := 3000, lastHitTime := 80000\<rparr>)\<rparr>)
        [(16 / 1000, 90000, 90000,
          \<lparr>rndInterval = 1 / 2, rndOriginX = 1 / 2, rndSpawnY = 1 / 2, rndSide = 1 / 4,
            rndAngle = 1 / 4, rndLength = 1 / 2, rndId = 1 / 8\<rparr>)]
      = initialWorld\<lparr>store := resolveDanger False 81000
       (initialState\<lparr>status := PLAYING, dangerStatus := WARNING, birdCount := 1,
          dangerTimer := 3000, lastHitTime := 80000\<rparr>)\<rparr>
   \<and> status (store (initialWorld\<lparr>store := initialState\<lparr>status := PLAYING,
          dangerStatus := WARNING, birdCount := 1, dangerTimer := 10,
          lastHitTime := 80000\<rparr>\<rparr>)) = PLAYING
   \<and> dangerTimer (store (initialWorld\<lparr>store := initialState\<lparr>status := PLAYING,
          dangerStatus := WARNING, birdCount := 1, dangerTimer := 10,
          lastHitTime := 80000\<rparr>\<rparr>)) - 16 / 1000 * 1000 \<le> 0
   \<and> birdCount (store (initialWorld\<lparr>store := initialState\<lparr>status := PLAYING,
          dangerStatus := WARNING, birdCount := 1, dangerTimer := 10,
          lastHitTime := 80000\<rparr>\<rparr>)) \<le> 1
   \<and> score (store (useFrame (16 / 1000) 500 83000
          \<lparr>rndInterval = 1 / 2, rndOriginX = 1 / 2, rndSpawnY = 1 / 2, rndSide = 1 / 4,
            rndAngle = 1 / 4, rndLength = 1 / 2, rndId = 1 / 8\<rparr>
          (initialWorld\<lparr>store := initialState\<lparr>status := PLAYING,
             dangerStatus := WARNING, birdCount := 1, dangerTimer := 10,
             lastHitTime := 80000\<rparr>\<rparr>))) < 800
   \<and> status (store (useFrame (16 / 1000) 500 83000
          \<lparr>rndInterval = 1 / 2, rndOriginX = 1 / 2, rndSpawnY = 1 / 2, rndSide = 1 / 4,
            rndAngle = 1 / 4, rndLength = 1 / 2, rndId = 1 / 8\<rparr>
          (initialWorld\<lparr>store := initialState\<lparr>status := PLAYING,
             dangerStatus := WARNING, birdCount := 1, dangerTimer := 10,
             lastHitTime := 80000\<rparr>\<rparr>))) = GAME_OVER
   \<and> birdCount (store (useFrame (16 / 1000) 500 83000
          \<lparr>rndInterval = 1 / 2, rndOriginX = 1 / 2, rndSpawnY = 1 / 2, rndSide = 1 / 4,
            rndAngle = 1 / 4, rndLength = 1 / 2, rndId = 1 / 8\<rparr>
          (initialWorld\<lparr>store := initialState\<lparr>status := PLAYING,
             dangerStatus := WARNING, birdCount := 1, dangerTimer := 10,
             lastHitTime := 80000\<rparr>\<rparr>))) = 0
   \<and> frames (useFrame (16 / 1000) 500 83000
          \<lparr>rndInterval = 1 / 2, rndOriginX = 1 / 2, rndSpawnY = 1 / 2, rndSide = 1 / 4,
            rndAngle = 1 / 4, rndLength = 1 / 2, rndId = 1 / 8\<rparr>
          (initialWorld\<lparr>store := initialState\<lparr>status := PLAYING,
             dangerStatus := WARNING, birdCount := 1, dangerTimer := 10,
             lastHitTime := 80000\<rparr>\<rparr>))
        [(16 / 1000, 90000, 90000,
          \<lparr>rndInterval = 1 / 2, rndOriginX = 1 / 2, rndSpawnY = 1 / 2, rndSide = 1 / 4,
            rndAngle = 1 / 4, rndLength = 1 / 2, rndId = 1 / 8\<rparr>)]
      = useFrame (16 / 1000) 500 83000
          \<lparr>rndInterval = 1 / 2, rndOriginX = 1 / 2, rndSpawnY = 1 / 2, rndSide = 1 / 4,
            rndAngle = 1 / 4, rndLength = 1 / 2, rndId = 1 / 8\<rparr>
          (initialWorld\<lparr>store := initialState\<lparr>status := PLAYING,
             dangerStatus := WARNING, birdCount := 1, dangerTimer := 10,
             lastHitTime := 80000\<rparr>\<rparr>)"
proof -
  let ?s = "initialState\<lparr>status := PLAYING, dangerStatus := WARNING, birdCount := 1,
       dangerTimer := 3000, lastHitTime := 80000\<rparr>"
  let ?g = "resolveDanger False 81000 ?s"
  let ?v = "initialWorld\<lparr>store := ?g\<rparr>"
  let ?r = "\<lparr>rndInterval = 1 / 2, rndOriginX = 1 / 2, rndSpawnY = 1 / 2, rndSide = 1 / 4,
            rndAngle = 1 / 4, rndLength = 1 / 2, rndId = 1 / 8\<rparr>"
  let ?w = "initialWorld\<lparr>store := initialState\<lparr>status := PLAYING,
          dangerStatus := WARNING, birdCount := 1, dangerTimer := 10, lastHitTime := 80000\<rparr>\<rparr>"
  let ?e = "useFrame (16 / 1000) 500 83000 ?r ?w"
  have pre1: "dangerStatus ?s = WARNING
      \<and> (?g = resolveDanger False 81000 ?s
          \<or> (?g = tickDangerTimer 0 81000 ?s \<and> dangerTimer ?s - 0 \<le> 0))
      \<and> birdCount ?g = 0"
    by (simp add: resolveDanger_def Let_def)
  have pre2: "status (store ?w) = PLAYING \<and> dangerStatus (store ?w) = WARNING
      \<and> dangerTimer (store ?w) - 16 / 1000 * 1000 \<le> 0 \<and> birdCount (store ?w) \<le> 1"
    by simp
  note fin = game_over_is_final [where s = ?s and g = ?g and now = 81000 and deltaMs = 0
      and w = ?w and delta = "16 / 1000" and time = 500 and r = ?r]
  note fin1 = fin [THEN conjunct1, rule_format, OF pre1]
  note end2 = game_over_is_final [where s = ?s and g = ?g and now = 83000 and deltaMs = 0
      and w = ?w and delta = "16 / 1000" and time = 500 and r = ?r,
      THEN conjunct2, rule_format, OF pre2]
  have st: "store ?v = ?g" by simp
  have cd: "82000 - (81000::real) < 2000" by simp
  from fin1 have over: "status ?g = GAME_OVER" by blast
  from fin1 cd have trig: "triggerDanger 82000 ?g = ?g" by blast
  from fin1 st have fr: "frames ?v [(16 / 1000, 90000, 90000, ?r)] = ?v" by blast
  have low: "score (store ?e) < 800"
    by (simp add: useFrame_def initialWorld_def initialState_def tickDangerTimer_def Let_def)
  from end2 low have over2: "status (store ?e) = GAME_OVER" by blast
  from end2 have zero2: "birdCount (store ?e) = 0" by blast
  from end2 have fr2: "frames ?e [(16 / 1000, 90000, 90000, ?r)] = ?e" by blast
  from pre1 pre2 over trig fr low over2 zero2 fr2 cd show ?thesis by blast
qed

end
